theory Spec2Isabelle
  imports Main "HOL-Library.Word"
begin

unbundle bit_operations_syntax

section \<open>Machine types\<close>

type_synonym u8 = "8 word"
type_synonym u32 = "32 word"
type_synonym u64 = "64 word"
type_synonym uint256 = "256 word"

section \<open>Shabal-256 (crypto/shabal256.cpp)\<close>

text \<open>
  A \<^verbatim>\<open>uint32_t\<close> is a natural number below \<open>2^32\<close>; each operation that can
  leave that range is cut back to its low 32 bits (\<open>take_bit 32 x = x mod 2^32\<close>).
  Bytes are \<open>8 word\<close>.
\<close>

type_synonym uint32 = nat

definition add32 :: "uint32 \<Rightarrow> uint32 \<Rightarrow> uint32" where
  "add32 x y = take_bit 32 (x + y)"

definition sub32 :: "uint32 \<Rightarrow> uint32 \<Rightarrow> uint32" where
  "sub32 x y = take_bit 32 (x + (2 ^ 32 - take_bit 32 y))"

definition mul32 :: "uint32 \<Rightarrow> uint32 \<Rightarrow> uint32" where
  "mul32 x y = take_bit 32 (x * y)"

definition shl32 :: "uint32 \<Rightarrow> nat \<Rightarrow> uint32" where
  "shl32 x n = take_bit 32 (push_bit n x)"

definition shr32 :: "uint32 \<Rightarrow> nat \<Rightarrow> uint32" where
  "shr32 x n = drop_bit n x"

definition not32 :: "uint32 \<Rightarrow> uint32" where
  "not32 x = x XOR 0xFFFFFFFF"

definition A_INIT :: "uint32 list" where
  "A_INIT =
     [0x52F84552, 0xE54B7999, 0x2D8EE3EC, 0xB9645191, 0xE0078B86, 0xBB7C44C9,
      0xD2B5C1CA, 0xB0D2EB8C, 0x14CE5A45, 0x22AF50DC, 0xEFFDBC6B, 0xEB21B74A]"

definition B_INIT :: "uint32 list" where
  "B_INIT =
     [0xB555C6EE, 0x3E710596, 0xA72A652F, 0x9301515F, 0xDA28C1FA, 0x696FD868,
      0x9CB6BF72, 0x0AFE4002, 0xA6E03615, 0x5138C1D4, 0xBE216306, 0xB38B8890,
      0x3EA8B96B, 0x3299ACE4, 0x30924DD4, 0x55CB34A5]"

definition C_INIT :: "uint32 list" where
  "C_INIT =
     [0xB405F031, 0xC4233EBA, 0xB3733979, 0xC0DD9D55, 0xC51C28AE, 0xA327B8E1,
      0x56C56167, 0xED614433, 0x88B59D60, 0x60E2CEBA, 0x758B4B8B, 0x83E82A7F,
      0xBC968828, 0xE6E00BF7, 0xBA839E55, 0x9B491C60]"

text \<open>
  A loop over \<^verbatim>\<open>i = 0 .. 15\<close> is a fold of its body over the index list; the body
  is a function of the array and the index.
\<close>

definition idx16 :: "nat list" where
  "idx16 = [0, 1, 2, 3, 4, 5, 6, 7, 8, 9, 10, 11, 12, 13, 14, 15]"

definition idx8 :: "nat list" where
  "idx8 = [0, 1, 2, 3, 4, 5, 6, 7]"

definition add_at :: "uint32 list \<Rightarrow> uint32 list \<Rightarrow> nat \<Rightarrow> uint32 list" where
  "add_at data b i = b[i := add32 (b ! i) (data ! i)]"

definition input_block_add :: "uint32 list \<Rightarrow> uint32 list \<Rightarrow> uint32 list" where
  "input_block_add b data = foldl (add_at data) b idx16"

definition sub_at :: "uint32 list \<Rightarrow> uint32 list \<Rightarrow> nat \<Rightarrow> uint32 list" where
  "sub_at data c i = c[i := sub32 (c ! i) (data ! i)]"

definition input_block_sub :: "uint32 list \<Rightarrow> uint32 list \<Rightarrow> uint32 list" where
  "input_block_sub c data = foldl (sub_at data) c idx16"

definition xor_w :: "uint32 list \<Rightarrow> uint32 \<Rightarrow> uint32 \<Rightarrow> uint32 list" where
  "xor_w a w_low w_high = (a[0 := a ! 0 XOR w_low])[1 := a ! 1 XOR w_high]"

text \<open>\<^verbatim>\<open>perm_elt\<close> updates \<^verbatim>\<open>a[xa0]\<close> first and reads the new value for \<^verbatim>\<open>b[xb0]\<close>.\<close>

definition perm_elt ::
  "uint32 list \<times> uint32 list \<Rightarrow> nat \<Rightarrow> nat \<Rightarrow> nat \<Rightarrow> nat \<Rightarrow> nat \<Rightarrow> nat \<Rightarrow> uint32 \<Rightarrow> uint32
     \<Rightarrow> uint32 list \<times> uint32 list" where
  "perm_elt ab xa0 xa1 xb0 xb1 xb2 xb3 xc xm =
     (let a = fst ab; b = snd ab;
          a = a[xa0 :=
                  mul32 (a ! xa0 XOR mul32 (shl32 (a ! xa1) 15 OR shr32 (a ! xa1) 17) 5 XOR xc) 3
                    XOR b ! xb1 XOR (b ! xb2 AND not32 (b ! xb3)) XOR xm];
          b = b[xb0 := not32 ((shl32 (b ! xb0) 1 OR shr32 (b ! xb0) 31) XOR a ! xa0)]
      in (a, b))"

text \<open>
  The 48 calls of \<^verbatim>\<open>perm\<close>, one row per call: the six indices, the index into
  \<^verbatim>\<open>c\<close> and the index into \<^verbatim>\<open>data\<close>.
\<close>

type_synonym perm_row = "nat \<times> nat \<times> nat \<times> nat \<times> nat \<times> nat \<times> nat \<times> nat"

definition perm_table :: "perm_row list" where
  "perm_table =
     [(0, 11, 0, 13, 9, 6, 8, 0), (1, 0, 1, 14, 10, 7, 7, 1), (2, 1, 2, 15, 11, 8, 6, 2),
      (3, 2, 3, 0, 12, 9, 5, 3), (4, 3, 4, 1, 13, 10, 4, 4), (5, 4, 5, 2, 14, 11, 3, 5),
      (6, 5, 6, 3, 15, 12, 2, 6), (7, 6, 7, 4, 0, 13, 1, 7), (8, 7, 8, 5, 1, 14, 0, 8),
      (9, 8, 9, 6, 2, 15, 15, 9), (10, 9, 10, 7, 3, 0, 14, 10), (11, 10, 11, 8, 4, 1, 13, 11),
      (0, 11, 12, 9, 5, 2, 12, 12), (1, 0, 13, 10, 6, 3, 11, 13), (2, 1, 14, 11, 7, 4, 10, 14),
      (3, 2, 15, 12, 8, 5, 9, 15), (4, 3, 0, 13, 9, 6, 8, 0), (5, 4, 1, 14, 10, 7, 7, 1),
      (6, 5, 2, 15, 11, 8, 6, 2), (7, 6, 3, 0, 12, 9, 5, 3), (8, 7, 4, 1, 13, 10, 4, 4),
      (9, 8, 5, 2, 14, 11, 3, 5), (10, 9, 6, 3, 15, 12, 2, 6), (11, 10, 7, 4, 0, 13, 1, 7),
      (0, 11, 8, 5, 1, 14, 0, 8), (1, 0, 9, 6, 2, 15, 15, 9), (2, 1, 10, 7, 3, 0, 14, 10),
      (3, 2, 11, 8, 4, 1, 13, 11), (4, 3, 12, 9, 5, 2, 12, 12), (5, 4, 13, 10, 6, 3, 11, 13),
      (6, 5, 14, 11, 7, 4, 10, 14), (7, 6, 15, 12, 8, 5, 9, 15), (8, 7, 0, 13, 9, 6, 8, 0),
      (9, 8, 1, 14, 10, 7, 7, 1), (10, 9, 2, 15, 11, 8, 6, 2), (11, 10, 3, 0, 12, 9, 5, 3),
      (0, 11, 4, 1, 13, 10, 4, 4), (1, 0, 5, 2, 14, 11, 3, 5), (2, 1, 6, 3, 15, 12, 2, 6),
      (3, 2, 7, 4, 0, 13, 1, 7), (4, 3, 8, 5, 1, 14, 0, 8), (5, 4, 9, 6, 2, 15, 15, 9),
      (6, 5, 10, 7, 3, 0, 14, 10), (7, 6, 11, 8, 4, 1, 13, 11), (8, 7, 12, 9, 5, 2, 12, 12),
      (9, 8, 13, 10, 6, 3, 11, 13), (10, 9, 14, 11, 7, 4, 10, 14), (11, 10, 15, 12, 8, 5, 9, 15)]"

fun perm_call ::
  "uint32 list \<Rightarrow> uint32 list \<Rightarrow> uint32 list \<times> uint32 list \<Rightarrow> perm_row
     \<Rightarrow> uint32 list \<times> uint32 list" where
  "perm_call c data ab (xa0, xa1, xb0, xb1, xb2, xb3, ci, mi) =
     perm_elt ab xa0 xa1 xb0 xb1 xb2 xb3 (c ! ci) (data ! mi)"

definition perm ::
  "uint32 list \<times> uint32 list \<Rightarrow> uint32 list \<Rightarrow> uint32 list \<Rightarrow> uint32 list \<times> uint32 list" where
  "perm ab c data = foldl (perm_call c data) ab perm_table"

definition rotl17_at :: "uint32 list \<Rightarrow> nat \<Rightarrow> uint32 list" where
  "rotl17_at b i = b[i := shl32 (b ! i) 17 OR shr32 (b ! i) 15]"

definition rotl17_all :: "uint32 list \<Rightarrow> uint32 list" where
  "rotl17_all b = foldl rotl17_at b idx16"

text \<open>The twelve additions at the end of \<^verbatim>\<open>apply_p\<close>: \<^verbatim>\<open>a[i] += c[x] + c[y] + c[z]\<close>.\<close>

definition feedback_table :: "(nat \<times> nat \<times> nat \<times> nat) list" where
  "feedback_table =
     [(0, 11, 15, 3), (1, 12, 0, 4), (2, 13, 1, 5), (3, 14, 2, 6),
      (4, 15, 3, 7), (5, 0, 4, 8), (6, 1, 5, 9), (7, 2, 6, 10),
      (8, 3, 7, 11), (9, 4, 8, 12), (10, 5, 9, 13), (11, 6, 10, 14)]"

fun feedback_add :: "uint32 list \<Rightarrow> uint32 list \<Rightarrow> nat \<times> nat \<times> nat \<times> nat \<Rightarrow> uint32 list" where
  "feedback_add c a (i, x, y, z) =
     a[i := add32 (a ! i) (add32 (add32 (c ! x) (c ! y)) (c ! z))]"

definition apply_p ::
  "uint32 list \<times> uint32 list \<Rightarrow> uint32 list \<Rightarrow> uint32 list \<Rightarrow> uint32 list \<times> uint32 list" where
  "apply_p ab c data =
     (let ab = perm (fst ab, rotl17_all (snd ab)) c data
      in (foldl (feedback_add c) (fst ab) feedback_table, snd ab))"

text \<open>\<^verbatim>\<open>swap_bc\<close> exchanges the sixteen entries one by one.\<close>

definition swap_at :: "uint32 list \<times> uint32 list \<Rightarrow> nat \<Rightarrow> uint32 list \<times> uint32 list" where
  "swap_at bc i = ((fst bc)[i := snd bc ! i], (snd bc)[i := fst bc ! i])"

definition swap_bc :: "uint32 list \<times> uint32 list \<Rightarrow> uint32 list \<times> uint32 list" where
  "swap_bc bc = foldl swap_at bc idx16"

definition incr_w :: "uint32 \<times> uint32 \<Rightarrow> uint32 \<times> uint32" where
  "incr_w w =
     (let w_low = add32 (fst w) 1
      in if w_low = 0 then (w_low, add32 (snd w) 1) else (w_low, snd w))"

text \<open>The registers of the hash: \<^verbatim>\<open>a\<close>, \<^verbatim>\<open>b\<close>, \<^verbatim>\<open>c\<close> and the counter \<^verbatim>\<open>(w_low, w_high)\<close>.\<close>

record shabal_state =
  reg_a :: "uint32 list"
  reg_b :: "uint32 list"
  reg_c :: "uint32 list"
  reg_w :: "uint32 \<times> uint32"

definition shabal_init :: shabal_state where
  "shabal_init = \<lparr>reg_a = A_INIT, reg_b = B_INIT, reg_c = C_INIT, reg_w = (1, 0)\<rparr>"

text \<open>
  The body of the loop over the data blocks, which is also run for the pre-terminator:
  add, xor the counter, \<^verbatim>\<open>apply_p\<close>, subtract, swap, count.
\<close>

definition shabal_block :: "shabal_state \<Rightarrow> uint32 list \<Rightarrow> shabal_state" where
  "shabal_block st m =
     (let b = input_block_add (reg_b st) m;
          a = xor_w (reg_a st) (fst (reg_w st)) (snd (reg_w st));
          ab = apply_p (a, b) (reg_c st) m;
          c = input_block_sub (reg_c st) m;
          bc = swap_bc (snd ab, c)
      in \<lparr>reg_a = fst ab, reg_b = fst bc, reg_c = snd bc, reg_w = incr_w (reg_w st)\<rparr>)"

text \<open>The terminator block: add, xor the counter, \<^verbatim>\<open>apply_p\<close>; nothing else.\<close>

definition shabal_term :: "shabal_state \<Rightarrow> uint32 list \<Rightarrow> shabal_state" where
  "shabal_term st m =
     (let b = input_block_add (reg_b st) m;
          a = xor_w (reg_a st) (fst (reg_w st)) (snd (reg_w st));
          ab = apply_p (a, b) (reg_c st) m
      in \<lparr>reg_a = fst ab, reg_b = snd ab, reg_c = reg_c st, reg_w = reg_w st\<rparr>)"

text \<open>One of the three closing rounds: swap, xor the counter, \<^verbatim>\<open>apply_p\<close>.\<close>

definition shabal_final_round :: "uint32 list \<Rightarrow> shabal_state \<Rightarrow> shabal_state" where
  "shabal_final_round m st =
     (let bc = swap_bc (reg_b st, reg_c st);
          a = xor_w (reg_a st) (fst (reg_w st)) (snd (reg_w st));
          ab = apply_p (a, fst bc) (snd bc) m
      in \<lparr>reg_a = fst ab, reg_b = snd ab, reg_c = snd bc, reg_w = reg_w st\<rparr>)"

text \<open>
  Memory is little-endian, as on the hosts the node runs on: a \<^verbatim>\<open>uint32_t\<close> read
  from four bytes, and the four bytes of a \<^verbatim>\<open>uint32_t\<close>.
\<close>

definition load_u32 :: "u8 list \<Rightarrow> nat \<Rightarrow> uint32" where
  "load_u32 bytes i =
     unat (bytes ! (4 * i)) + push_bit 8 (unat (bytes ! (4 * i + 1))) +
     push_bit 16 (unat (bytes ! (4 * i + 2))) + push_bit 24 (unat (bytes ! (4 * i + 3)))"

definition load_words :: "u8 list \<Rightarrow> nat \<Rightarrow> nat \<Rightarrow> uint32 list" where
  "load_words bytes first n = map (load_u32 bytes) [first..<first + n]"

definition store_u32 :: "uint32 \<Rightarrow> u8 list" where
  "store_u32 w =
     [of_nat (take_bit 8 w), of_nat (take_bit 8 (drop_bit 8 w)),
      of_nat (take_bit 8 (drop_bit 16 w)), of_nat (take_bit 8 (drop_bit 24 w))]"

definition store_words :: "uint32 list \<Rightarrow> u8 list" where
  "store_words ws = concat (map store_u32 ws)"

text \<open>
  \<^verbatim>\<open>Shabal256(data, len, pre_term, term, output)\<close>: \<^verbatim>\<open>len\<close> is the length of the
  data, \<^verbatim>\<open>len >> 6\<close> blocks of sixteen words are read from it; a null \<^verbatim>\<open>pre_term\<close>
  is \<open>None\<close>. The result is the output buffer, the bytes of \<^verbatim>\<open>b[8 .. 15]\<close>.
\<close>

definition load_block :: "u8 list \<Rightarrow> nat \<Rightarrow> uint32 list" where
  "load_block data k = load_words data (16 * k) 16"

definition data_blocks :: "u8 list \<Rightarrow> uint32 list list" where
  "data_blocks data = map (load_block data) [0..<drop_bit 6 (length data)]"

definition shabal_digest :: "u8 list \<Rightarrow> uint32 list option \<Rightarrow> uint32 list \<Rightarrow> shabal_state" where
  "shabal_digest data pre_term term =
     (let st = foldl shabal_block shabal_init (data_blocks data);
          st = (case pre_term of None \<Rightarrow> st | Some pt \<Rightarrow> shabal_block st pt);
          st = shabal_term st term
      in shabal_final_round term (shabal_final_round term (shabal_final_round term st)))"

definition Shabal256 :: "u8 list \<Rightarrow> uint32 list option \<Rightarrow> uint32 list \<Rightarrow> u8 list" where
  "Shabal256 data pre_term term = store_words (drop 8 (reg_b (shabal_digest data pre_term term)))"

section \<open>Scoop selection (algorithms/quality.cpp)\<close>

definition NUM_SCOOPS :: nat where
  "NUM_SCOOPS = 4096"

text \<open>\<^verbatim>\<open>BytesToU32LE(bytes, byte_count, output)\<close>.\<close>

definition u32_le_at :: "u8 list \<Rightarrow> nat \<Rightarrow> uint32" where
  "u32_le_at bytes i =
     unat (bytes ! (i * 4)) OR shl32 (unat (bytes ! (i * 4 + 1))) 8 OR
     shl32 (unat (bytes ! (i * 4 + 2))) 16 OR shl32 (unat (bytes ! (i * 4 + 3))) 24"

definition BytesToU32LE :: "u8 list \<Rightarrow> nat \<Rightarrow> uint32 list" where
  "BytesToU32LE bytes byte_count = map (u32_le_at bytes) [0..<byte_count div 4]"

text \<open>
  The 64-byte buffer of \<^verbatim>\<open>CalculateScoop\<close>: the generation signature, the height as
  eight bytes with the most significant first, the byte \<open>0x80\<close> and zeros.
\<close>

definition height_byte :: "u64 \<Rightarrow> nat \<Rightarrow> u8" where
  "height_byte block_height i = ucast (drop_bit (i * 8) block_height AND 0xFF)"

definition scoop_message :: "u64 \<Rightarrow> u8 list \<Rightarrow> u8 list" where
  "scoop_message block_height generation_signature =
     take 32 generation_signature @
     map (height_byte block_height) [7, 6, 5, 4, 3, 2, 1, 0] @
     [0x80] @ replicate 23 0"

definition scoop_of_hash :: "u8 list \<Rightarrow> nat" where
  "scoop_of_hash hash = push_bit 8 (unat (hash ! 30 AND 0x0F)) OR unat (hash ! 31)"

text \<open>
  \<^verbatim>\<open>CalculateScoop\<close> for a non-null signature: no data and no pre-terminator are
  given to \<^verbatim>\<open>Shabal256\<close>; the sixteen words of the buffer are its terminator block.
\<close>

definition CalculateScoop :: "u64 \<Rightarrow> u8 list \<Rightarrow> nat" where
  "CalculateScoop block_height generation_signature =
     (let data = scoop_message block_height generation_signature;
          data_u32 = BytesToU32LE data 64;
          hash = Shabal256 [] None data_u32
      in scoop_of_hash hash)"

text \<open>The generation signature of the test \<^verbatim>\<open>calculate_scoop_basic\<close> (test/pocx\_tests.cpp).\<close>

definition test_gensig :: "u8 list" where
  "test_gensig =
     [0x98, 0x21, 0xbe, 0xb3, 0xb3, 0x4d, 0x9a, 0x3b, 0x30, 0x12, 0x7c, 0x05, 0xf8, 0xd1, 0xe9, 0x00,
      0x6f, 0x8a, 0x02, 0xf5, 0x65, 0xa3, 0x57, 0x21, 0x45, 0x13, 0x4b, 0xbe, 0x34, 0xd3, 0x7a, 0x76]"

text \<open>The block \<^verbatim>\<open>{0x80, 0, ..., 0}\<close> of sixteen words.\<close>

definition term_0x80 :: "uint32 list" where
  "term_0x80 = [0x80, 0, 0, 0, 0, 0, 0, 0, 0, 0, 0, 0, 0, 0, 0, 0]"

section \<open>Shabal-256 lite (crypto/shabal256\_lite.cpp)\<close>

definition A_INIT_LITE :: "uint32 list" where
  "A_INIT_LITE =
     [0x52F84552, 0xE54B7999, 0x2D8EE3EC, 0xB9645191, 0xE0078B86, 0xBB7C44C9,
      0xD2B5C1CA, 0xB0D2EB8C, 0x14CE5A45, 0x22AF50DC, 0xEFFDBC6B, 0xEB21B74A]"

definition B_INIT_LITE :: "uint32 list" where
  "B_INIT_LITE =
     [0xB555C6EE, 0x3E710596, 0xA72A652F, 0x9301515F, 0xDA28C1FA, 0x696FD868,
      0x9CB6BF72, 0x0AFE4002, 0xA6E03615, 0x5138C1D4, 0xBE216306, 0xB38B8890,
      0x3EA8B96B, 0x3299ACE4, 0x30924DD4, 0x55CB34A5]"

definition C_INIT_LITE :: "uint32 list" where
  "C_INIT_LITE =
     [0xB405F031, 0xC4233EBA, 0xB3733979, 0xC0DD9D55, 0xC51C28AE, 0xA327B8E1,
      0x56C56167, 0xED614433, 0x88B59D60, 0x60E2CEBA, 0x758B4B8B, 0x83E82A7F,
      0xBC968828, 0xE6E00BF7, 0xBA839E55, 0x9B491C60]"

definition perm_elt_lite ::
  "uint32 list \<times> uint32 list \<Rightarrow> nat \<Rightarrow> nat \<Rightarrow> nat \<Rightarrow> nat \<Rightarrow> nat \<Rightarrow> nat \<Rightarrow> uint32 \<Rightarrow> uint32
     \<Rightarrow> uint32 list \<times> uint32 list" where
  "perm_elt_lite ab xa0 xa1 xb0 xb1 xb2 xb3 xc xm =
     (let a = fst ab; b = snd ab;
          a = a[xa0 :=
                  mul32 (a ! xa0 XOR mul32 (shl32 (a ! xa1) 15 OR shr32 (a ! xa1) 17) 5 XOR xc) 3
                    XOR b ! xb1 XOR (b ! xb2 AND not32 (b ! xb3)) XOR xm];
          b = b[xb0 := not32 ((shl32 (b ! xb0) 1 OR shr32 (b ! xb0) 31) XOR a ! xa0)]
      in (a, b))"

text \<open>
  The unrolled calls of \<^verbatim>\<open>Shabal256Lite\<close> take their message word from one of three
  arrays: \<^verbatim>\<open>gensig_u32\<close>, \<^verbatim>\<open>data_aligned\<close> and \<^verbatim>\<open>term\<close> (here \<open>term_w\<close>).
\<close>

datatype lite_operand = gensig_u32 nat | data_aligned nat | term_w nat

type_synonym lite_row = "nat \<times> nat \<times> nat \<times> nat \<times> nat \<times> nat \<times> nat \<times> lite_operand"

text \<open>The 48 calls of the first block (source lines 63 to 112).\<close>

definition lite_table_1 :: "lite_row list" where
  "lite_table_1 =
     [(0, 11, 0, 13, 9, 6, 8, gensig_u32 0), (1, 0, 1, 14, 10, 7, 7, gensig_u32 1),
      (2, 1, 2, 15, 11, 8, 6, gensig_u32 2), (3, 2, 3, 0, 12, 9, 5, gensig_u32 3),
      (4, 3, 4, 1, 13, 10, 4, gensig_u32 4), (5, 4, 5, 2, 14, 11, 3, gensig_u32 5),
      (6, 5, 6, 3, 15, 12, 2, gensig_u32 6), (7, 6, 7, 4, 0, 13, 1, gensig_u32 7),
      (8, 7, 8, 5, 1, 14, 0, data_aligned 0), (9, 8, 9, 6, 2, 15, 15, data_aligned 1),
      (10, 9, 10, 7, 3, 0, 14, data_aligned 2), (11, 10, 11, 8, 4, 1, 13, data_aligned 3),
      (0, 11, 12, 9, 5, 2, 12, data_aligned 4), (1, 0, 13, 10, 6, 3, 11, data_aligned 5),
      (2, 1, 14, 11, 7, 4, 10, data_aligned 6), (3, 2, 15, 12, 8, 5, 9, data_aligned 7),
      (4, 3, 0, 13, 9, 6, 8, gensig_u32 0), (5, 4, 1, 14, 10, 7, 7, gensig_u32 1),
      (6, 5, 2, 15, 11, 8, 6, gensig_u32 2), (7, 6, 3, 0, 12, 9, 5, gensig_u32 3),
      (8, 7, 4, 1, 13, 10, 4, gensig_u32 4), (9, 8, 5, 2, 14, 11, 3, gensig_u32 5),
      (10, 9, 6, 3, 15, 12, 2, gensig_u32 6), (11, 10, 7, 4, 0, 13, 1, gensig_u32 7),
      (0, 11, 8, 5, 1, 14, 0, data_aligned 0), (1, 0, 9, 6, 2, 15, 15, data_aligned 1),
      (2, 1, 10, 7, 3, 0, 14, data_aligned 2), (3, 2, 11, 8, 4, 1, 13, data_aligned 3),
      (4, 3, 12, 9, 5, 2, 12, data_aligned 4), (5, 4, 13, 10, 6, 3, 11, data_aligned 5),
      (6, 5, 14, 11, 7, 4, 10, data_aligned 6), (7, 6, 15, 12, 8, 5, 9, data_aligned 7),
      (8, 7, 0, 13, 9, 6, 8, gensig_u32 0), (9, 8, 1, 14, 10, 7, 7, gensig_u32 1),
      (10, 9, 2, 15, 11, 8, 6, gensig_u32 2), (11, 10, 3, 0, 12, 9, 5, gensig_u32 3),
      (0, 11, 4, 1, 13, 10, 4, gensig_u32 4), (1, 0, 5, 2, 14, 11, 3, gensig_u32 5),
      (2, 1, 6, 3, 15, 12, 2, gensig_u32 6), (3, 2, 7, 4, 0, 13, 1, gensig_u32 7),
      (4, 3, 8, 5, 1, 14, 0, data_aligned 0), (5, 4, 9, 6, 2, 15, 15, data_aligned 1),
      (6, 5, 10, 7, 3, 0, 14, data_aligned 2), (7, 6, 11, 8, 4, 1, 13, data_aligned 3),
      (8, 7, 12, 9, 5, 2, 12, data_aligned 4), (9, 8, 13, 10, 6, 3, 11, data_aligned 5),
      (10, 9, 14, 11, 7, 4, 10, data_aligned 6), (11, 10, 15, 12, 8, 5, 9, data_aligned 7)]"

text \<open>
  The 48 calls of the second block (source lines 155 to 204); the body of the closing
  loop (lines 232 to 281) repeats them word for word.
\<close>

definition lite_table_2 :: "lite_row list" where
  "lite_table_2 =
     [(0, 11, 0, 13, 9, 6, 8, data_aligned 8), (1, 0, 1, 14, 10, 7, 7, data_aligned 9),
      (2, 1, 2, 15, 11, 8, 6, data_aligned 10), (3, 2, 3, 0, 12, 9, 5, data_aligned 11),
      (4, 3, 4, 1, 13, 10, 4, data_aligned 12), (5, 4, 5, 2, 14, 11, 3, data_aligned 13),
      (6, 5, 6, 3, 15, 12, 2, data_aligned 14), (7, 6, 7, 4, 0, 13, 1, data_aligned 15),
      (8, 7, 8, 5, 1, 14, 0, term_w 0), (9, 8, 9, 6, 2, 15, 15, term_w 1),
      (10, 9, 10, 7, 3, 0, 14, term_w 2), (11, 10, 11, 8, 4, 1, 13, term_w 3),
      (0, 11, 12, 9, 5, 2, 12, term_w 4), (1, 0, 13, 10, 6, 3, 11, term_w 5),
      (2, 1, 14, 11, 7, 4, 10, term_w 6), (3, 2, 15, 12, 8, 5, 9, term_w 7),
      (4, 3, 0, 13, 9, 6, 8, data_aligned 8), (5, 4, 1, 14, 10, 7, 7, data_aligned 9),
      (6, 5, 2, 15, 11, 8, 6, data_aligned 10), (7, 6, 3, 0, 12, 9, 5, data_aligned 11),
      (8, 7, 4, 1, 13, 10, 4, data_aligned 12), (9, 8, 5, 2, 14, 11, 3, data_aligned 13),
      (10, 9, 6, 3, 15, 12, 2, data_aligned 14), (11, 10, 7, 4, 0, 13, 1, data_aligned 15),
      (0, 11, 8, 5, 1, 14, 0, term_w 0), (1, 0, 9, 6, 2, 15, 15, term_w 1),
      (2, 1, 10, 7, 3, 0, 14, term_w 2), (3, 2, 11, 8, 4, 1, 13, term_w 3),
      (4, 3, 12, 9, 5, 2, 12, term_w 4), (5, 4, 13, 10, 6, 3, 11, term_w 5),
      (6, 5, 14, 11, 7, 4, 10, term_w 6), (7, 6, 15, 12, 8, 5, 9, term_w 7),
      (8, 7, 0, 13, 9, 6, 8, data_aligned 8), (9, 8, 1, 14, 10, 7, 7, data_aligned 9),
      (10, 9, 2, 15, 11, 8, 6, data_aligned 10), (11, 10, 3, 0, 12, 9, 5, data_aligned 11),
      (0, 11, 4, 1, 13, 10, 4, data_aligned 12), (1, 0, 5, 2, 14, 11, 3, data_aligned 13),
      (2, 1, 6, 3, 15, 12, 2, data_aligned 14), (3, 2, 7, 4, 0, 13, 1, data_aligned 15),
      (4, 3, 8, 5, 1, 14, 0, term_w 0), (5, 4, 9, 6, 2, 15, 15, term_w 1),
      (6, 5, 10, 7, 3, 0, 14, term_w 2), (7, 6, 11, 8, 4, 1, 13, term_w 3),
      (8, 7, 12, 9, 5, 2, 12, term_w 4), (9, 8, 13, 10, 6, 3, 11, term_w 5),
      (10, 9, 14, 11, 7, 4, 10, term_w 6), (11, 10, 15, 12, 8, 5, 9, term_w 7)]"

text \<open>The three arrays of message words: \<open>(gensig_u32, data_aligned, term)\<close>.\<close>

type_synonym lite_arrays = "uint32 list \<times> uint32 list \<times> uint32 list"

fun lite_word :: "lite_arrays \<Rightarrow> lite_operand \<Rightarrow> uint32" where
  "lite_word (g, d, t) (gensig_u32 i) = g ! i"
| "lite_word (g, d, t) (data_aligned i) = d ! i"
| "lite_word (g, d, t) (term_w i) = t ! i"

fun lite_call ::
  "lite_arrays \<Rightarrow> uint32 list \<Rightarrow> uint32 list \<times> uint32 list \<Rightarrow> lite_row
     \<Rightarrow> uint32 list \<times> uint32 list" where
  "lite_call m c ab (xa0, xa1, xb0, xb1, xb2, xb3, ci, x) =
     perm_elt_lite ab xa0 xa1 xb0 xb1 xb2 xb3 (c ! ci) (lite_word m x)"

text \<open>
  The loops \<^verbatim>\<open>b[i] += xs[i + off]; b[i + 8] += ys[i]\<close> and
  \<^verbatim>\<open>c[i] -= xs[i]; c[i + 8] -= ys[i]\<close> over \<^verbatim>\<open>i = 0 .. 7\<close>.
\<close>

definition lite_add_at :: "uint32 list \<Rightarrow> nat \<Rightarrow> uint32 list \<Rightarrow> uint32 list \<Rightarrow> nat \<Rightarrow> uint32 list" where
  "lite_add_at xs off ys b i =
     (let b = b[i := add32 (b ! i) (xs ! (i + off))]
      in b[i + 8 := add32 (b ! (i + 8)) (ys ! i)])"

definition lite_sub_at :: "uint32 list \<Rightarrow> uint32 list \<Rightarrow> uint32 list \<Rightarrow> nat \<Rightarrow> uint32 list" where
  "lite_sub_at xs ys c i =
     (let c = c[i := sub32 (c ! i) (xs ! i)]
      in c[i + 8 := sub32 (c ! (i + 8)) (ys ! i)])"

text \<open>
  The statements that each of the three unrolled passes shares: xor the counter into
  \<^verbatim>\<open>a\<close>, rotate \<^verbatim>\<open>b\<close>, the 48 calls, the twelve additions.
\<close>

definition lite_pass ::
  "lite_arrays \<Rightarrow> lite_row list \<Rightarrow> uint32 \<times> uint32 \<Rightarrow> uint32 list \<Rightarrow> uint32 list \<times> uint32 list
     \<Rightarrow> uint32 list \<times> uint32 list" where
  "lite_pass m table w c ab =
     (let a = (fst ab)[0 := fst ab ! 0 XOR fst w];
          a = a[1 := a ! 1 XOR snd w];
          b = foldl rotl17_at (snd ab) idx16;
          ab = foldl (lite_call m c) (a, b) table
      in (foldl (feedback_add c) (fst ab) feedback_table, snd ab))"

text \<open>The body of the closing loop (lines 219 to 295): swap, then the pass.\<close>

definition lite_closing ::
  "lite_arrays \<Rightarrow> uint32 \<times> uint32 \<Rightarrow> uint32 list \<times> uint32 list \<times> uint32 list \<Rightarrow> nat
     \<Rightarrow> uint32 list \<times> uint32 list \<times> uint32 list" where
  "lite_closing m w abc loop =
     (let bc = foldl swap_at (fst (snd abc), snd (snd abc)) idx16;
          ab = lite_pass m lite_table_2 w (snd bc) (fst abc, fst bc)
      in (fst ab, snd ab, snd bc))"

text \<open>
  \<^verbatim>\<open>Shabal256Lite(data, gensig)\<close>, in the order of the source: \<^verbatim>\<open>data\<close> holds 64
  bytes and \<^verbatim>\<open>gensig\<close> 32; the result is \<^verbatim>\<open>b_u64[4]\<close>, the words \<^verbatim>\<open>b[8]\<close> and
  \<^verbatim>\<open>b[9]\<close> read as one little-endian 64-bit value.
\<close>

definition Shabal256Lite :: "u8 list \<Rightarrow> u8 list \<Rightarrow> nat" where
  "Shabal256Lite data gensig =
     (let w = (1, 0);
          d = load_words data 0 16;
          g = load_words gensig 0 8;
          t = [0x80, 0, 0, 0, 0, 0, 0, 0];
          m = (g, d, t);
          b = foldl (lite_add_at g 0 d) B_INIT_LITE idx8;
          ab = lite_pass m lite_table_1 w C_INIT_LITE (A_INIT_LITE, b);
          c = foldl (lite_sub_at g d) C_INIT_LITE idx8;
          bc = foldl swap_at (snd ab, c) idx16;
          w = incr_w w;
          b = foldl (lite_add_at d 8 t) (fst bc) idx8;
          ab = lite_pass m lite_table_2 w (snd bc) (fst ab, b);
          abc = foldl (lite_closing m w) (fst ab, snd ab, snd bc) [0, 1, 2]
      in fst (snd abc) ! 8 + push_bit 32 (fst (snd abc) ! 9))"

section \<open>Time bending (algorithms/time\_bending.cpp)\<close>

text \<open>
  What a C++ call can do other than return: throw, fail an assertion, or run into
  undefined behaviour. A loop that may not terminate is an \<open>option\<close>-valued partial
  function, with \<open>None\<close> for a call that never returns.
\<close>

datatype cxx_error = uint_error_division_by_zero | division_by_zero | assertion_failed
  | signed_overflow | null_dereference

text \<open>
  Modelled from the spec: \<^verbatim>\<open>arith_uint256\<close> (arith\_uint256.h) is not among the
  sources. The spec's section 4.4 has a 256-bit unsigned integer with add, sub, mul,
  shl, shr, compare and low-64 extract, and section 7 has all operations modulo
  \<open>2^256\<close>. A value is a natural number below \<open>2^256\<close>. Division is the truncating
  quotient; by zero it throws \<^verbatim>\<open>uint_error("Division by zero")\<close>.
\<close>

type_synonym arith_uint256 = nat

definition add256 :: "arith_uint256 \<Rightarrow> arith_uint256 \<Rightarrow> arith_uint256" where
  "add256 a b = (a + b) mod 2 ^ 256"

definition sub256 :: "arith_uint256 \<Rightarrow> arith_uint256 \<Rightarrow> arith_uint256" where
  "sub256 a b = (a + (2 ^ 256 - b mod 2 ^ 256)) mod 2 ^ 256"

definition mul256 :: "arith_uint256 \<Rightarrow> arith_uint256 \<Rightarrow> arith_uint256" where
  "mul256 a b = (a * b) mod 2 ^ 256"

definition shl256 :: "arith_uint256 \<Rightarrow> nat \<Rightarrow> arith_uint256" where
  "shl256 a n = (a * 2 ^ n) mod 2 ^ 256"

definition shr256 :: "arith_uint256 \<Rightarrow> nat \<Rightarrow> arith_uint256" where
  "shr256 a n = a div 2 ^ n"

definition div256 :: "arith_uint256 \<Rightarrow> arith_uint256 \<Rightarrow> cxx_error + arith_uint256" where
  "div256 a b = (if b = 0 then Inl uint_error_division_by_zero else Inr (a div b))"

definition GetLow64 :: "arith_uint256 \<Rightarrow> u64" where
  "GetLow64 a = of_nat (a mod 2 ^ 64)"

text \<open>The first loop of \<^verbatim>\<open>int_cuberoot_u256\<close>: \<^verbatim>\<open>while ((hi * hi * hi) < x) hi <<= 1;\<close>\<close>

partial_function (option) cuberoot_grow :: "arith_uint256 \<Rightarrow> arith_uint256 \<Rightarrow> arith_uint256 option"
where
  "cuberoot_grow x hi =
     (if mul256 (mul256 hi hi) hi < x then cuberoot_grow x (shl256 hi 1) else Some hi)"

text \<open>The second loop: the midpoint search between \<^verbatim>\<open>lo\<close> and \<^verbatim>\<open>hi\<close>.\<close>

partial_function (option) cuberoot_search ::
  "arith_uint256 \<Rightarrow> arith_uint256 \<Rightarrow> arith_uint256 \<Rightarrow> arith_uint256 option"
where
  "cuberoot_search x lo hi =
     (if lo < hi then
        (let mid = shr256 (add256 (add256 lo hi) 1) 1;
             mid3 = mul256 (mul256 mid mid) mid
         in if mid3 \<le> x then cuberoot_search x mid hi
            else cuberoot_search x lo (sub256 mid 1))
      else Some lo)"

definition int_cuberoot_u256 :: "arith_uint256 \<Rightarrow> arith_uint256 option" where
  "int_cuberoot_u256 x =
     (case cuberoot_grow x 1 of
        None \<Rightarrow> None
      | Some hi \<Rightarrow> cuberoot_search x (shr256 hi 1) hi)"

definition GAMMA_FP :: arith_uint256 where
  "GAMMA_FP = 3927365422841"

text \<open>\<^verbatim>\<open>calculate_qscale_uint\<close>, with \<^verbatim>\<open>Q = 42\<close>.\<close>

definition calculate_qscale_uint :: "u64 \<Rightarrow> (cxx_error + arith_uint256) option" where
  "calculate_qscale_uint block_time =
     (let t = unat block_time;
          block_scaled = shl256 t (3 * 42)
      in case int_cuberoot_u256 block_scaled of
           None \<Rightarrow> None
         | Some t_cbrt \<Rightarrow>
             let numerator = shl256 t (2 * 42);
                 denominator = shr256 (mul256 t_cbrt GAMMA_FP) 42
             in Some (div256 (add256 numerator (shr256 denominator 1)) denominator))"

text \<open>
  \<^verbatim>\<open>CalculateTimeBendedDeadline\<close>, with \<^verbatim>\<open>P = 21\<close> and \<^verbatim>\<open>Q = 42\<close>. The result
  is \<open>None\<close> when the call does not return, \<open>Some (Inl e)\<close> when it throws and
  \<open>Some (Inr d)\<close> when it returns \<open>d\<close>.
\<close>

definition CalculateTimeBendedDeadline :: "u64 \<Rightarrow> u64 \<Rightarrow> u64 \<Rightarrow> (cxx_error + u64) option" where
  "CalculateTimeBendedDeadline quality base_target block_time =
     (if quality = 0 then Some (Inr 0)
      else case calculate_qscale_uint block_time of
        None \<Rightarrow> None
      | Some (Inl e) \<Rightarrow> Some (Inl e)
      | Some (Inr SCALE_Q) \<Rightarrow>
          let SHIFT_3P = shl256 1 (3 * 21)
          in case div256 (mul256 (unat quality) SHIFT_3P) (unat base_target) of
               Inl e \<Rightarrow> Some (Inl e)
             | Inr V \<Rightarrow>
                 (case int_cuberoot_u256 V of
                    None \<Rightarrow> None
                  | Some r \<Rightarrow>
                      let numer = mul256 SCALE_Q r;
                          denom = shl256 1 (21 + 42)
                      in case div256 (add256 numer (shr256 denom 1)) denom of
                           Inl e \<Rightarrow> Some (Inl e)
                         | Inr rounded \<Rightarrow> Some (Inr (GetLow64 rounded))))"

text \<open>
  The pipeline in the words of the spec's section 4.5, over the unbounded naturals:
  the largest \<open>r\<close> with \<open>r^3 \<le> x\<close>, rounding of a quotient to the nearest integer
  with halves going up, and the five steps.
\<close>

function spec_cube_root :: "nat \<Rightarrow> nat" where
  "spec_cube_root x =
     (if x = 0 then 0
      else let r = 2 * spec_cube_root (x div 8)
           in if (r + 1) ^ 3 \<le> x then r + 1 else r)"
  by pat_completeness auto
termination
  by (relation "measure id") auto

declare spec_cube_root.simps [simp del]

definition spec_round_half_up :: "nat \<Rightarrow> nat \<Rightarrow> nat" where
  "spec_round_half_up n d = (2 * n + d) div (2 * d)"

definition spec_SCALE_Q :: "nat \<Rightarrow> nat" where
  "spec_SCALE_Q T =
     spec_round_half_up (T * 2 ^ (2 * 42))
       ((spec_cube_root (T * 2 ^ (3 * 42)) * 3927365422841) div 2 ^ 42)"

definition spec_time_bent :: "nat \<Rightarrow> nat \<Rightarrow> nat \<Rightarrow> nat" where
  "spec_time_bent q base_target T =
     (let V = (q * 2 ^ (3 * 21)) div base_target;
          r = spec_cube_root V;
          numer = spec_SCALE_Q T * r;
          denom = 2 ^ (21 + 42)
      in spec_round_half_up numer denom mod 2 ^ 64)"

section \<open>Difficulty schedule (consensus/difficulty.cpp, consensus/params.cpp)\<close>

text \<open>
  \<^verbatim>\<open>CalculateGenesisBaseTarget\<close>: the \<^verbatim>\<open>int64_t\<close> spacing is converted to
  \<^verbatim>\<open>uint64_t\<close> for the division; dividing by zero is undefined behaviour.
\<close>

definition POWER_42 :: u64 where "POWER_42 = 4398046511104"
definition POWER_60 :: u64 where "POWER_60 = 1152921504606846976"

definition CalculateGenesisBaseTarget :: "int \<Rightarrow> bool \<Rightarrow> cxx_error + u64" where
  "CalculateGenesisBaseTarget target_spacing_seconds low_capacity_calibration =
     (let base_power = (if low_capacity_calibration then POWER_60 else POWER_42);
          divisor = (word_of_int target_spacing_seconds :: u64)
      in if divisor = 0 then Inl division_by_zero
         else let genesis_base_target = base_power div divisor
              in Inr (if genesis_base_target = 0 then 1 else genesis_base_target))"

text \<open>
  The fields of \<^verbatim>\<open>CBlockIndex\<close> (chain.h, absent) that the difficulty schedule and the
  scheduler read: height, time, base target, block hash, the quality of the block's
  proof, and \<^verbatim>\<open>pprev\<close>, which is null for the genesis block.
\<close>

datatype CBlockIndex =
  CBlockIndex (nHeight: int) (nTime: "32 word") (nBaseTarget: u64) (GetBlockHash: uint256)
    (pocxProof_quality: u64) (pprev: "CBlockIndex option")

text \<open>
  Modelled from the spec: \<^verbatim>\<open>CBlockIndex::GetAncestor\<close> (chain.cpp) is not among the
  sources. The spec's section 4.6 takes the ancestor at a given height; there is none
  above the block's own height or below zero.
\<close>

fun GetAncestor :: "CBlockIndex \<Rightarrow> int \<Rightarrow> CBlockIndex option" where
  "GetAncestor (CBlockIndex h t b bh pq p) height =
     (if height > h \<or> height < 0 then None
      else if height = h then Some (CBlockIndex h t b bh pq p)
      else case p of None \<Rightarrow> None | Some q \<Rightarrow> GetAncestor q height)"

text \<open>
  The invariant of a block index: heights go down by one along \<^verbatim>\<open>pprev\<close> and the
  block without predecessor has height 0.
\<close>

fun chain_ok :: "CBlockIndex \<Rightarrow> bool" where
  "chain_ok (CBlockIndex h t b bh pq p) =
     (case p of None \<Rightarrow> h = 0 | Some q \<Rightarrow> nHeight q = h - 1 \<and> 0 < h \<and> chain_ok q)"

text \<open>The three consensus parameters read (consensus/params.h of the node, absent).\<close>

record Consensus_Params =
  nPowTargetSpacing :: int
  fPoCXLowCapacityCalibration :: bool
  nPoCXRollingWindowSize :: int

text \<open>The quotient of two \<^verbatim>\<open>int64_t\<close> in C++ is rounded towards zero.\<close>

definition quot_int64 :: "int \<Rightarrow> int \<Rightarrow> int" where
  "quot_int64 a b = (if (a < 0) = (b < 0) then \<bar>a\<bar> div \<bar>b\<bar> else - (\<bar>a\<bar> div \<bar>b\<bar>))"

text \<open>An \<^verbatim>\<open>int64_t\<close> product; signed overflow is undefined behaviour.\<close>

definition mul_int64 :: "int \<Rightarrow> int \<Rightarrow> cxx_error + int" where
  "mul_int64 a b =
     (if - (2 ^ 63) \<le> a * b \<and> a * b < 2 ^ 63 then Inr (a * b) else Inl signed_overflow)"

text \<open>
  The loop \<^verbatim>\<open>for (i = 0; i < lookback && walker; i++)\<close> that adds up the base targets
  (in \<^verbatim>\<open>uint64_t\<close>, wrapping) while it walks \<^verbatim>\<open>pprev\<close>.
\<close>

fun sum_base_targets :: "nat \<Rightarrow> CBlockIndex option \<Rightarrow> u64 \<Rightarrow> u64" where
  "sum_base_targets 0 walker acc = acc"
| "sum_base_targets (Suc n) None acc = acc"
| "sum_base_targets (Suc n) (Some w) acc = sum_base_targets n (pprev w) (acc + nBaseTarget w)"

definition GetBlockTime :: "CBlockIndex \<Rightarrow> int" where
  "GetBlockTime b = uint (nTime b)"

text \<open>
  The end of \<^verbatim>\<open>GetNextBaseTarget\<close> (lines 64 to 88): the adjustment by the ratio of
  the timespans in \<^verbatim>\<open>uint64_t\<close>, the caps of 20 percent around the previous base
  target, the cap at the genesis base target and the floor at 1.
\<close>

definition adjust_base_target :: "u64 \<Rightarrow> u64 \<Rightarrow> u64 \<Rightarrow> int \<Rightarrow> int \<Rightarrow> u64" where
  "adjust_base_target genesis_base_target prev_base_target avg_base_target actual_timespan
       target_timespan =
     (let new_base_target =
            avg_base_target * word_of_int actual_timespan div word_of_int target_timespan;
          max_increase = prev_base_target + prev_base_target div 5;
          max_decrease = prev_base_target - prev_base_target div 5;
          new_base_target =
            (if new_base_target > max_increase then max_increase else new_base_target);
          new_base_target =
            (if new_base_target < max_decrease then max_decrease else new_base_target);
          new_base_target =
            (if new_base_target > genesis_base_target then genesis_base_target
             else new_base_target)
      in if new_base_target = 0 then 1 else new_base_target)"

definition GetNextBaseTarget :: "CBlockIndex \<Rightarrow> Consensus_Params \<Rightarrow> cxx_error + u64" where
  "GetNextBaseTarget pindexLast params =
     (case CalculateGenesisBaseTarget (nPowTargetSpacing params)
             (fPoCXLowCapacityCalibration params) of
        Inl e \<Rightarrow> Inl e
      | Inr genesis_base_target \<Rightarrow>
        if nHeight pindexLast = 0 then Inr genesis_base_target
        else
          let prev_base_target = nBaseTarget pindexLast;
              lookback = min (nPoCXRollingWindowSize params) (nHeight pindexLast)
          in case GetAncestor pindexLast (nHeight pindexLast - lookback + 1) of
               None \<Rightarrow> Inl assertion_failed
             | Some pindexFirst \<Rightarrow>
               let actual_timespan = GetBlockTime pindexLast - GetBlockTime pindexFirst
               in case mul_int64 lookback (nPowTargetSpacing params) of
                    Inl e \<Rightarrow> Inl e
                  | Inr target_timespan \<Rightarrow>
                    let min_timespan = quot_int64 target_timespan 2;
                        min_timespan = (if min_timespan = 0 then 1 else min_timespan);
                        actual_timespan =
                          (if actual_timespan < min_timespan then min_timespan
                           else actual_timespan)
                    in case mul_int64 target_timespan 2 of
                         Inl e \<Rightarrow> Inl e
                       | Inr target_timespan_2 \<Rightarrow>
                         let actual_timespan =
                               (if actual_timespan > target_timespan_2 then target_timespan_2
                                else actual_timespan);
                             total_base_target =
                               sum_base_targets (nat lookback) (Some pindexLast) 0
                         in if (word_of_int lookback :: u64) = 0 then Inl division_by_zero
                            else
                              let avg_base_target = total_base_target div word_of_int lookback
                              in if (word_of_int target_timespan :: u64) = 0
                                 then Inl division_by_zero
                                 else
                                   Inr (adjust_base_target genesis_base_target
                                          prev_base_target avg_base_target actual_timespan
                                          target_timespan))"

section \<open>Block proof validation (consensus/proof.cpp)\<close>

text \<open>\<^verbatim>\<open>struct ValidationResult\<close> and the error codes of proof.h.\<close>

record ValidationResult =
  is_valid :: bool
  error_code :: int
  quality :: u64
  deadline :: u64

definition VALIDATION_SUCCESS :: int where "VALIDATION_SUCCESS = 0"
definition VALIDATION_ERROR_GENERATION_SIGNATURE_PARSE :: int where
  "VALIDATION_ERROR_GENERATION_SIGNATURE_PARSE = - 100"
definition VALIDATION_ERROR_GENERATION_SIGNATURE_DECODE :: int where
  "VALIDATION_ERROR_GENERATION_SIGNATURE_DECODE = - 101"
definition VALIDATION_ERROR_QUALITY_CALCULATION :: int where
  "VALIDATION_ERROR_QUALITY_CALCULATION = - 106"

definition uint64_max :: u64 where
  "uint64_max = 18446744073709551615"

text \<open>A \<^verbatim>\<open>uint64_t\<close> quotient; dividing by zero is undefined behaviour.\<close>

definition div_u64 :: "u64 \<Rightarrow> u64 \<Rightarrow> cxx_error + u64" where
  "div_u64 a b = (if b = 0 then Inl division_by_zero else Inr (a div b))"

text \<open>
  \<^verbatim>\<open>pocx_validate_block\<close>. A null pointer argument is \<open>None\<close>. The two callees are
  parameters: \<open>decode\<close> stands for \<^verbatim>\<open>DecodeGenerationSignature\<close> and gives its return
  code and the decoded bytes, \<open>calc_quality\<close> stands for \<^verbatim>\<open>CalculateQuality\<close> (scoop
  selection, plot generation and the lite hash) and gives its return code and the
  quality it stores. The result is the return value and the \<^verbatim>\<open>ValidationResult\<close>
  behind the pointer after the call, or the undefined behaviour reached.
\<close>

definition pocx_validate_block ::
  "(string \<Rightarrow> int \<times> u8 list) \<Rightarrow>
   (u8 list \<Rightarrow> u8 list \<Rightarrow> u64 \<Rightarrow> u32 \<Rightarrow> u64 \<Rightarrow> u8 list \<Rightarrow> int \<times> u64) \<Rightarrow>
   string option \<Rightarrow> u64 \<Rightarrow> u8 list option \<Rightarrow> u64 \<Rightarrow> u64 \<Rightarrow> u8 list option \<Rightarrow> u32 \<Rightarrow>
   ValidationResult option \<Rightarrow> cxx_error + bool \<times> ValidationResult option" where
  "pocx_validate_block decode calc_quality generation_signature_hex base_target account_payload
       block_height nonce seed compression result =
     (case (generation_signature_hex, account_payload, seed, result) of
        (Some hex, Some account, Some sd, Some res) \<Rightarrow>
          let res = \<lparr>is_valid = False, error_code = - 1, quality = 0, deadline = uint64_max\<rparr>
          in (case decode hex of (decode_result, generation_signature) \<Rightarrow>
            if decode_result \<noteq> 0 then
              Inr (False,
                   Some (res\<lparr>error_code :=
                     (if decode_result = - 1 then VALIDATION_ERROR_GENERATION_SIGNATURE_PARSE
                      else VALIDATION_ERROR_GENERATION_SIGNATURE_DECODE)\<rparr>))
            else
              (case calc_quality (take 20 account) (take 32 sd) nonce compression block_height
                      generation_signature of (quality_result, q) \<Rightarrow>
                 if quality_result \<noteq> 0 then
                   Inr (False, Some (res\<lparr>error_code := VALIDATION_ERROR_QUALITY_CALCULATION\<rparr>))
                 else
                   (case (if base_target > 0 then div_u64 q base_target else Inr uint64_max) of
                      Inl e \<Rightarrow> Inl e
                    | Inr d \<Rightarrow>
                        Inr (True,
                             Some \<lparr>is_valid = True, error_code = VALIDATION_SUCCESS,
                                   quality = q, deadline = d\<rparr>))))
      | _ \<Rightarrow> Inr (False, result))"

text \<open>Two tables agree when each row has the same indices and reads the same message word.\<close>

fun row_agrees :: "lite_arrays \<Rightarrow> uint32 list \<Rightarrow> lite_row \<Rightarrow> perm_row \<Rightarrow> bool" where
  "row_agrees m M (xa0, xa1, xb0, xb1, xb2, xb3, ci, x) (ya0, ya1, yb0, yb1, yb2, yb3, cj, mi) =
     (xa0 = ya0 \<and> xa1 = ya1 \<and> xb0 = yb0 \<and> xb1 = yb1 \<and> xb2 = yb2 \<and> xb3 = yb3 \<and> ci = cj \<and>
      lite_word m x = M ! mi)"

section \<open>Forging assignments (assignments/assignment_state.cpp)\<close>

datatype ForgingState = UNASSIGNED | ASSIGNING | ASSIGNED | REVOKING | REVOKED

text \<open>The stored assignment record; a 20-byte address is a list of bytes.\<close>

record ForgingAssignment =
  plotAddress :: "u8 list"
  forgingAddress :: "u8 list"
  assignment_txid :: uint256
  assignment_height :: int
  assignment_effective_height :: int
  revoked :: bool
  revocation_txid :: uint256
  revocation_height :: int
  revocation_effective_height :: int

text \<open>
  Modelled from the spec: \<^verbatim>\<open>ForgingAssignment::GetStateAtHeight\<close> is declared in
  coins.h, which is not among the sources; only its callers are. The table of the
  spec's section 4.8 for a stored record: not revoked and \<open>h\<close> below the assignment's
  effective height is ASSIGNING, not revoked otherwise is ASSIGNED, revoked and \<open>h\<close>
  below the revocation's effective height is REVOKING, revoked otherwise is REVOKED.
\<close>

definition GetStateAtHeight :: "ForgingAssignment \<Rightarrow> int \<Rightarrow> ForgingState" where
  "GetStateAtHeight a h =
     (if \<not> revoked a
      then (if h < assignment_effective_height a then ASSIGNING else ASSIGNED)
      else (if h < revocation_effective_height a then REVOKING else REVOKED))"

text \<open>
  Modelled from the spec: \<^verbatim>\<open>ForgingAssignment::IsActiveAtHeight\<close> is declared in
  coins.h, which is not among the sources; only its caller \<^verbatim>\<open>GetEffectiveSigner\<close> is.
  The spec's section 4.9 gives the forging address to the states ASSIGNING, ASSIGNED
  and REVOKING.
\<close>

definition IsActiveAtHeight :: "ForgingAssignment \<Rightarrow> int \<Rightarrow> bool" where
  "IsActiveAtHeight a h =
     (let state = GetStateAtHeight a h
      in state = ASSIGNING \<or> state = ASSIGNED \<or> state = REVOKING)"

text \<open>
  The coin view is read through \<^verbatim>\<open>GetForgingAssignment(plotAddress, nHeight)\<close> only
  (coins.h, absent): it is a parameter, a lookup from plot address and height to an
  optional record.
\<close>

type_synonym CCoinsViewCache = "u8 list \<Rightarrow> int \<Rightarrow> ForgingAssignment option"

definition GetEffectiveSigner :: "u8 list \<Rightarrow> int \<Rightarrow> CCoinsViewCache \<Rightarrow> u8 list" where
  "GetEffectiveSigner plot height view =
     (case view plot height of
        Some assignment \<Rightarrow>
          if IsActiveAtHeight assignment height then forgingAddress assignment else plot
      | None \<Rightarrow> plot)"

definition GetAssignmentState :: "u8 list \<Rightarrow> int \<Rightarrow> CCoinsViewCache \<Rightarrow> ForgingState" where
  "GetAssignmentState plot height view =
     (case view plot height of
        None \<Rightarrow> UNASSIGNED
      | Some assignment \<Rightarrow> GetStateAtHeight assignment height)"

section \<open>OP\_RETURN payloads (assignments/opcodes.cpp)\<close>

text \<open>
  Modelled from the spec: \<^verbatim>\<open>CScript\<close>, its \<^verbatim>\<open>operator<<\<close> and \<^verbatim>\<open>GetOp\<close> live in
  script/script.h, which is not among the sources. A script is its byte string. The
  spec's section 4.8 fixes the payloads as \<^verbatim>\<open>OP_RETURN push(44) {...}\<close> and
  \<^verbatim>\<open>OP_RETURN push(24) {...}\<close>: a push of fewer than 76 bytes is the length byte
  followed by the data; longer pushes use OP\_PUSHDATA1/2/4 with a little-endian
  length of 1, 2 or 4 bytes. \<^verbatim>\<open>GetOp\<close> reads one opcode at the cursor and, for a
  push opcode, the pushed data; it fails when the script ends too early.
\<close>

type_synonym CScript = "u8 list"

definition OP_PUSHDATA1 :: u8 where "OP_PUSHDATA1 = 0x4c"
definition OP_PUSHDATA2 :: u8 where "OP_PUSHDATA2 = 0x4d"
definition OP_PUSHDATA4 :: u8 where "OP_PUSHDATA4 = 0x4e"
definition OP_RETURN :: u8 where "OP_RETURN = 0x6a"
definition OP_INVALIDOPCODE :: u8 where "OP_INVALIDOPCODE = 0xff"

definition script_push_op :: "CScript \<Rightarrow> u8 \<Rightarrow> CScript" where
  "script_push_op script opcode = script @ [opcode]"

definition le_bytes :: "nat \<Rightarrow> nat \<Rightarrow> u8 list" where
  "le_bytes k n = map (\<lambda>i. of_nat (n div 256 ^ i)) [0..<k]"

definition script_push_data :: "CScript \<Rightarrow> u8 list \<Rightarrow> CScript" where
  "script_push_data script b =
     (let n = length b
      in if n < unat OP_PUSHDATA1 then script @ [of_nat n] @ b
         else if n \<le> 0xff then script @ [OP_PUSHDATA1] @ le_bytes 1 n @ b
         else if n \<le> 0xffff then script @ [OP_PUSHDATA2] @ le_bytes 2 n @ b
         else script @ [OP_PUSHDATA4] @ le_bytes 4 n @ b)"

definition read_le :: "u8 list \<Rightarrow> nat" where
  "read_le bs = foldr (\<lambda>b acc. unat b + 256 * acc) bs 0"

text \<open>
  \<^verbatim>\<open>GetOp(pc, opcode, data)\<close>: the result is the return value, the advanced cursor,
  the opcode and the data.
\<close>

definition read_push :: "CScript \<Rightarrow> nat \<Rightarrow> u8 \<Rightarrow> nat \<Rightarrow> bool \<times> nat \<times> u8 \<times> u8 list" where
  "read_push script pc opcode nSize =
     (if length script - pc < nSize then (False, pc, OP_INVALIDOPCODE, [])
      else (True, pc + nSize, opcode, take nSize (drop pc script)))"

definition GetOp :: "CScript \<Rightarrow> nat \<Rightarrow> bool \<times> nat \<times> u8 \<times> u8 list" where
  "GetOp script pc =
     (if pc \<ge> length script then (False, pc, OP_INVALIDOPCODE, [])
      else
        let opcode = script ! pc; pc1 = pc + 1
        in if opcode \<le> OP_PUSHDATA4 then
             (if opcode < OP_PUSHDATA1 then read_push script pc1 opcode (unat opcode)
              else if opcode = OP_PUSHDATA1 then
                (if length script - pc1 < 1 then (False, pc1, OP_INVALIDOPCODE, [])
                 else read_push script (pc1 + 1) opcode (read_le (take 1 (drop pc1 script))))
              else if opcode = OP_PUSHDATA2 then
                (if length script - pc1 < 2 then (False, pc1, OP_INVALIDOPCODE, [])
                 else read_push script (pc1 + 2) opcode (read_le (take 2 (drop pc1 script))))
              else
                (if length script - pc1 < 4 then (False, pc1, OP_INVALIDOPCODE, [])
                 else read_push script (pc1 + 4) opcode (read_le (take 4 (drop pc1 script)))))
           else (True, pc1, opcode, []))"

text \<open>The markers "POCX" and "XCOP".\<close>

definition ASSIGNMENT_MARKER :: "u8 list" where
  "ASSIGNMENT_MARKER = [0x50, 0x4F, 0x43, 0x58]"

definition REVOCATION_MARKER :: "u8 list" where
  "REVOCATION_MARKER = [0x58, 0x43, 0x4F, 0x50]"

definition CreateAssignmentOpReturn :: "u8 list \<Rightarrow> u8 list \<Rightarrow> CScript" where
  "CreateAssignmentOpReturn plot forge =
     (let script = script_push_op [] OP_RETURN;
          data = ASSIGNMENT_MARKER @ plot @ forge
      in script_push_data script data)"

definition CreateRevocationOpReturn :: "u8 list \<Rightarrow> CScript" where
  "CreateRevocationOpReturn plot =
     (let script = script_push_op [] OP_RETURN;
          data = REVOCATION_MARKER @ plot
      in script_push_data script data)"

text \<open>
  The detection functions read the \<^verbatim>\<open>scriptPubKey\<close> of the output only, so the
  output is its script. \<^verbatim>\<open>std::equal\<close> compares the marker with the first four bytes
  of the data, whose size has been checked before.
\<close>

definition IsAssignmentOpReturn :: "CScript \<Rightarrow> bool" where
  "IsAssignmentOpReturn script =
     (if script = [] \<or> script ! 0 \<noteq> OP_RETURN then False
      else case GetOp script 1 of (ok, pc, opcode, data) \<Rightarrow>
        if \<not> ok then False
        else if length data \<noteq> 44 then False
        else if take (length ASSIGNMENT_MARKER) data \<noteq> ASSIGNMENT_MARKER then False
        else if pc \<noteq> length script then False
        else True)"

definition IsRevocationOpReturn :: "CScript \<Rightarrow> bool" where
  "IsRevocationOpReturn script =
     (if script = [] \<or> script ! 0 \<noteq> OP_RETURN then False
      else case GetOp script 1 of (ok, pc, opcode, data) \<Rightarrow>
        if \<not> ok then False
        else if length data \<noteq> 24 then False
        else if take (length REVOCATION_MARKER) data \<noteq> REVOCATION_MARKER then False
        else if pc \<noteq> length script then False
        else True)"

definition ParseAssignmentOpReturn :: "CScript \<Rightarrow> (u8 list \<times> u8 list) option" where
  "ParseAssignmentOpReturn script =
     (if \<not> IsAssignmentOpReturn script then None
      else case GetOp script 1 of (ok, pc, opcode, data) \<Rightarrow>
        if \<not> ok then None
        else Some (take 20 (drop 4 data), take 20 (drop 24 data)))"

definition ParseRevocationOpReturn :: "CScript \<Rightarrow> u8 list option" where
  "ParseRevocationOpReturn script =
     (if \<not> IsRevocationOpReturn script then None
      else case GetOp script 1 of (ok, pc, opcode, data) \<Rightarrow>
        if \<not> ok then None
        else Some (take 20 (drop 4 data)))"

section \<open>Forging scheduler (mining/scheduler.cpp, mining/submission.cpp)\<close>

text \<open>
  \<^verbatim>\<open>struct NonceSubmission\<close> of mining/submission.h. The \<^verbatim>\<open>submit_time\<close> stamp is
  never read by the scheduler and is left out.
\<close>

record NonceSubmission =
  sub_account_id :: string
  sub_seed :: string
  sub_nonce :: u64
  sub_quality :: u64
  sub_compression :: u32
  sub_expected_height :: int
  sub_generation_signature :: uint256

text \<open>
  The part of \<^verbatim>\<open>class PoCXScheduler\<close> that \<^verbatim>\<open>SubmitNonce\<close> and \<^verbatim>\<open>Shutdown\<close>
  touch: the queue (front of the queue is the head of the list) and the shutdown flag.
  The mutex makes each operation atomic, so an operation is a function on this state.
\<close>

record SchedulerQueue =
  m_submission_queue :: "NonceSubmission list"
  m_shutdown :: bool

definition MAX_QUEUE_SIZE :: nat where
  "MAX_QUEUE_SIZE = 1000"

definition scheduler_init :: SchedulerQueue where
  "scheduler_init = \<lparr>m_submission_queue = [], m_shutdown = False\<rparr>"

text \<open>
  \<^verbatim>\<open>PoCXScheduler::SubmitNonce\<close>: builds the submission, rejects it when the queue is
  full, pushes it at the back otherwise. The shutdown flag is not read.
\<close>

definition SubmitNonce ::
  "SchedulerQueue \<Rightarrow> string \<Rightarrow> string \<Rightarrow> u64 \<Rightarrow> u64 \<Rightarrow> u32 \<Rightarrow> int \<Rightarrow> uint256
     \<Rightarrow> bool \<times> SchedulerQueue" where
  "SubmitNonce s acc sd n q c h gs =
     (let submission = \<lparr>sub_account_id = acc, sub_seed = sd, sub_nonce = n, sub_quality = q,
                         sub_compression = c, sub_expected_height = h, sub_generation_signature = gs\<rparr>
      in if length (m_submission_queue s) \<ge> MAX_QUEUE_SIZE then (False, s)
         else (True, s\<lparr>m_submission_queue := m_submission_queue s @ [submission]\<rparr>))"

text \<open>
  \<^verbatim>\<open>PoCXScheduler::Shutdown\<close>: \<^verbatim>\<open>m_shutdown.exchange(true)\<close>; the worker is woken and
  joined. The queue is not touched.
\<close>

definition Shutdown :: "SchedulerQueue \<Rightarrow> SchedulerQueue" where
  "Shutdown s = (if m_shutdown s then s else s\<lparr>m_shutdown := True\<rparr>)"

text \<open>
  The dequeue step at the top of \<^verbatim>\<open>WorkerThreadFunc\<close>: the worker runs only while the
  flag is clear, and pops the front of a non-empty queue.
\<close>

definition worker_pop :: "SchedulerQueue \<Rightarrow> NonceSubmission option \<times> SchedulerQueue" where
  "worker_pop s =
     (if m_shutdown s then (None, s)
      else case m_submission_queue s of
             [] \<Rightarrow> (None, s)
           | x # rest \<Rightarrow> (Some x, s\<lparr>m_submission_queue := rest\<rparr>))"

text \<open>Any interleaving of the three operations, as a sequence of atomic steps.\<close>

datatype queue_op =
    OpSubmit string string u64 u64 u32 int uint256
  | OpShutdown
  | OpWorkerPop

fun queue_step :: "SchedulerQueue \<Rightarrow> queue_op \<Rightarrow> SchedulerQueue" where
  "queue_step s (OpSubmit acc sd n q c h gs) = snd (SubmitNonce s acc sd n q c h gs)"
| "queue_step s OpShutdown = Shutdown s"
| "queue_step s OpWorkerPop = snd (worker_pop s)"

definition queue_run :: "queue_op list \<Rightarrow> SchedulerQueue" where
  "queue_run ops = foldl queue_step scheduler_init ops"

text \<open>A scheduler whose queue is full: \<^verbatim>\<open>MAX_QUEUE_SIZE\<close> copies of one submission.\<close>

definition full_queue :: SchedulerQueue where
  "full_queue =
     \<lparr>m_submission_queue =
        replicate MAX_QUEUE_SIZE
          \<lparr>sub_account_id = ''acc'', sub_seed = ''seed'', sub_nonce = 0, sub_quality = 0,
            sub_compression = 1, sub_expected_height = 1, sub_generation_signature = 0\<rparr>,
      m_shutdown = False\<rparr>"

text \<open>\<^verbatim>\<open>SubmissionValidator\<close> of mining/submission.cpp.\<close>

definition ValidateContext :: "NonceSubmission \<Rightarrow> int \<Rightarrow> uint256 \<Rightarrow> bool" where
  "ValidateContext submission current_height current_gen_sig =
     (if sub_expected_height submission \<noteq> current_height then False
      else if sub_generation_signature submission \<noteq> current_gen_sig then False
      else True)"

definition IsBetterThanCurrent :: "u64 \<Rightarrow> u64 option \<Rightarrow> bool" where
  "IsBetterThanCurrent new_quality current_best_quality =
     (case current_best_quality of None \<Rightarrow> True | Some best \<Rightarrow> new_quality < best)"

text \<open>
  \<^verbatim>\<open>struct ForgingState\<close> of mining/scheduler.h, the candidate the worker holds in
  \<^verbatim>\<open>m_current_forging\<close>; times are in seconds.
\<close>

record Candidate =
  cand_account_id :: string
  cand_seed :: string
  cand_nonce :: u64
  cand_quality :: u64
  cand_compression :: u32
  deadline_seconds :: u64
  cand_base_target :: u64
  cand_block_time :: int
  generation_sig :: uint256
  cand_height :: int
  tip_block_hash :: uint256
  forge_time :: int
  cancelled :: bool

text \<open>
  What the worker reaches outside the scheduler, as parameters: whether the node
  context and its chain manager exist, the active tip, the consensus parameters, the
  hash that makes the next generation signature, the block builder, the wallet signer
  (it gives the signed block, or nothing when signing fails) and \<^verbatim>\<open>ProcessNewBlock\<close>.
\<close>

record 'blk Node =
  has_context :: bool
  has_chainman :: bool
  active_tip :: "CBlockIndex option"
  consensus :: Consensus_Params
  next_generation_signature :: "CBlockIndex \<Rightarrow> uint256"
  BuildBlock :: "string \<Rightarrow> string \<Rightarrow> u64 \<Rightarrow> u64 \<Rightarrow> u32 \<Rightarrow> 'blk option"
  SignPoCXBlockWithAvailableWallet :: "'blk \<Rightarrow> string \<Rightarrow> 'blk option"
  ProcessNewBlock :: "'blk \<Rightarrow> bool"

text \<open>
  \<^verbatim>\<open>SubmitForgedBlock\<close>: the return value, and the blocks handed to
  \<^verbatim>\<open>ProcessNewBlock\<close>.
\<close>

definition SubmitForgedBlock :: "'blk Node \<Rightarrow> 'blk \<Rightarrow> bool \<times> 'blk list" where
  "SubmitForgedBlock node block =
     (if \<not> has_context node \<or> \<not> has_chainman node then (False, [])
      else (ProcessNewBlock node block, [block]))"

definition ForgeBlock :: "'blk Node \<Rightarrow> Candidate option \<Rightarrow> bool \<times> 'blk list" where
  "ForgeBlock node m_current_forging =
     (case m_current_forging of
        None \<Rightarrow> (False, [])
      | Some c \<Rightarrow>
          if \<not> has_context node then (False, [])
          else case BuildBlock node (cand_account_id c) (cand_seed c) (cand_nonce c)
                      (cand_quality c) (cand_compression c) of
                 None \<Rightarrow> (False, [])
               | Some block \<Rightarrow>
                   (case SignPoCXBlockWithAvailableWallet node block (cand_account_id c) of
                      None \<Rightarrow> (False, [])
                    | Some signed_block \<Rightarrow> SubmitForgedBlock node signed_block))"

text \<open>
  \<^verbatim>\<open>CheckDefensiveForging\<close>, called with a candidate present: the blocks handed to
  \<^verbatim>\<open>ProcessNewBlock\<close>. Reading \<^verbatim>\<open>new_tip.pprev\<close> of a block without predecessor is a
  null dereference.
\<close>

definition CheckDefensiveForging ::
  "'blk Node \<Rightarrow> Candidate \<Rightarrow> CBlockIndex \<Rightarrow> cxx_error + 'blk list" where
  "CheckDefensiveForging node c new_tip =
     (case pprev new_tip of
        None \<Rightarrow> Inl null_dereference
      | Some prev \<Rightarrow>
          if GetBlockHash prev \<noteq> tip_block_hash c then Inr []
          else
            let arriving_quality = pocxProof_quality new_tip
            in if cand_quality c < arriving_quality then Inr (snd (ForgeBlock node (Some c)))
               else Inr [])"

text \<open>\<^verbatim>\<open>struct NewBlockContext\<close> and \<^verbatim>\<open>GetNewBlockContext\<close> of consensus/difficulty.cpp.\<close>

record NewBlockContext =
  ctx_height :: int
  ctx_generation_signature :: uint256
  ctx_base_target :: u64
  ctx_block_hash :: uint256

definition GetNewBlockContext :: "'blk Node \<Rightarrow> CBlockIndex \<Rightarrow> cxx_error + NewBlockContext" where
  "GetNewBlockContext node tip =
     (case GetNextBaseTarget tip (consensus node) of
        Inl e \<Rightarrow> Inl e
      | Inr bt \<Rightarrow>
          Inr \<lparr>ctx_height = nHeight tip + 1,
               ctx_generation_signature = next_generation_signature node tip,
               ctx_base_target = bt,
               ctx_block_hash = GetBlockHash tip\<rparr>)"

text \<open>
  The outcome of one \<^verbatim>\<open>ProcessSubmission\<close>: the blocks handed to \<^verbatim>\<open>ProcessNewBlock\<close>,
  and how the call ended, by not returning (\<open>None\<close>), with undefined behaviour or an
  exception, or with the new \<^verbatim>\<open>m_current_forging\<close>.
\<close>

type_synonym 'blk outcome = "'blk list \<times> (cxx_error + Candidate option) option"

text \<open>The part of \<^verbatim>\<open>ProcessSubmission\<close> after the tip check (lines 158 to 203).\<close>

definition install_submission ::
  "'blk Node \<Rightarrow> CBlockIndex \<Rightarrow> Candidate option \<Rightarrow> NonceSubmission
     \<Rightarrow> (cxx_error + Candidate option) option" where
  "install_submission node tip m_current_forging submission =
     (case GetNewBlockContext node tip of
        Inl e \<Rightarrow> Some (Inl e)
      | Inr current_context \<Rightarrow>
          if \<not> ValidateContext submission (ctx_height current_context)
                 (ctx_generation_signature current_context)
          then Some (Inr m_current_forging)
          else if \<not> IsBetterThanCurrent (sub_quality submission)
                       (map_option cand_quality m_current_forging)
          then Some (Inr m_current_forging)
          else
            (case CalculateTimeBendedDeadline (sub_quality submission)
                    (ctx_base_target current_context)
                    (word_of_int (nPowTargetSpacing (consensus node))) of
               None \<Rightarrow> None
             | Some (Inl e) \<Rightarrow> Some (Inl e)
             | Some (Inr dl) \<Rightarrow>
                 Some (Inr (Some
                   \<lparr>cand_account_id = sub_account_id submission,
                    cand_seed = sub_seed submission,
                    cand_nonce = sub_nonce submission,
                    cand_quality = sub_quality submission,
                    cand_compression = sub_compression submission,
                    deadline_seconds = dl,
                    cand_base_target = ctx_base_target current_context,
                    cand_block_time = uint (nTime tip),
                    generation_sig = ctx_generation_signature current_context,
                    cand_height = ctx_height current_context,
                    tip_block_hash = GetBlockHash tip,
                    forge_time = uint (nTime tip) + uint dl,
                    cancelled = False\<rparr>))))"

text \<open>
  \<^verbatim>\<open>ProcessSubmission\<close>: without context or tip the submission is dropped; a candidate
  made on another tip goes through the defensive-forging check and is reset; then the
  submission is judged against the new context.
\<close>

definition ProcessSubmission ::
  "'blk Node \<Rightarrow> Candidate option \<Rightarrow> NonceSubmission \<Rightarrow> 'blk outcome" where
  "ProcessSubmission node m_current_forging submission =
     (if \<not> has_context node \<or> \<not> has_chainman node then ([], Some (Inr m_current_forging))
      else case active_tip node of
        None \<Rightarrow> ([], Some (Inr m_current_forging))
      | Some tip \<Rightarrow>
          (case m_current_forging of
             Some c \<Rightarrow>
               if tip_block_hash c \<noteq> GetBlockHash tip then
                 (case CheckDefensiveForging node c tip of
                    Inl e \<Rightarrow> ([], Some (Inl e))
                  | Inr forged \<Rightarrow> (forged, install_submission node tip None submission))
               else ([], install_submission node tip (Some c) submission)
           | None \<Rightarrow> ([], install_submission node tip None submission)))"

text \<open>
  A same-height race for the examples: a genesis block, a block on top of it with proof
  quality 900, a candidate made on the genesis block with quality 500, and a node whose
  wallet is locked, so that signing fails.
\<close>

definition race_genesis :: CBlockIndex where
  "race_genesis = CBlockIndex 0 1000 7 11 0 None"

definition race_tip :: CBlockIndex where
  "race_tip = CBlockIndex 1 1600 7 12 900 (Some race_genesis)"

definition race_candidate :: Candidate where
  "race_candidate =
     \<lparr>cand_account_id = ''acc'', cand_seed = ''seed'', cand_nonce = 1, cand_quality = 500,
      cand_compression = 1, deadline_seconds = 700, cand_base_target = 7,
      cand_block_time = 1000, generation_sig = 0, cand_height = 1, tip_block_hash = 11,
      forge_time = 1700, cancelled = False\<rparr>"

definition race_submission :: NonceSubmission where
  "race_submission =
     \<lparr>sub_account_id = ''acc'', sub_seed = ''seed'', sub_nonce = 2, sub_quality = 800,
      sub_compression = 1, sub_expected_height = 1, sub_generation_signature = 0\<rparr>"

definition race_params :: Consensus_Params where
  "race_params =
     \<lparr>nPowTargetSpacing = 600, fPoCXLowCapacityCalibration = False,
      nPoCXRollingWindowSize = 24\<rparr>"

definition locked_wallet_node :: "string Node" where
  "locked_wallet_node =
     \<lparr>has_context = True, has_chainman = True, active_tip = Some race_tip,
      consensus = race_params, next_generation_signature = (\<lambda>tip. 0),
      BuildBlock = (\<lambda>acc sd n q c. Some ''block''),
      SignPoCXBlockWithAvailableWallet = (\<lambda>block acc. None),
      ProcessNewBlock = (\<lambda>block. True)\<rparr>"

definition open_wallet_node :: "string Node" where
  "open_wallet_node =
     locked_wallet_node\<lparr>SignPoCXBlockWithAvailableWallet := (\<lambda>block acc. Some (block @ ''+sig''))\<rparr>"

section \<open>Properties of the submission queue\<close>

lemma queue_step_bounded:
  "length (m_submission_queue s) \<le> MAX_QUEUE_SIZE \<Longrightarrow>
   length (m_submission_queue (queue_step s op)) \<le> MAX_QUEUE_SIZE"
  by (cases op)
     (auto simp: SubmitNonce_def Shutdown_def worker_pop_def Let_def split: list.splits)

lemma foldl_queue_step_bounded:
  "length (m_submission_queue s) \<le> MAX_QUEUE_SIZE \<Longrightarrow>
   length (m_submission_queue (foldl queue_step s ops)) \<le> MAX_QUEUE_SIZE"
  by (induction ops arbitrary: s) (simp_all add: queue_step_bounded)

lemma queue_run_bounded: "length (m_submission_queue (queue_run ops)) \<le> MAX_QUEUE_SIZE"
  unfolding queue_run_def
  by (rule foldl_queue_step_bounded) (simp add: scheduler_init_def)

text \<open>
  C9, as stated, fails: after \<^verbatim>\<open>Shutdown\<close> a call of \<^verbatim>\<open>SubmitNonce\<close> on a queue with
  room still returns true and enqueues.
\<close>

theorem SubmitNonce_after_Shutdown_accepts:
  "SubmitNonce (Shutdown scheduler_init) ''acc'' ''seed'' 1 2 1 5 0 =
     (True, \<lparr>m_submission_queue =
               [\<lparr>sub_account_id = ''acc'', sub_seed = ''seed'', sub_nonce = 1, sub_quality = 2,
                 sub_compression = 1, sub_expected_height = 5, sub_generation_signature = 0\<rparr>],
             m_shutdown = True\<rparr>)"
  by (simp add: SubmitNonce_def Shutdown_def scheduler_init_def MAX_QUEUE_SIZE_def)

text \<open>
  C9 (amended): \<^verbatim>\<open>SubmitNonce\<close> returns false and leaves the scheduler unchanged
  whenever the queue already holds \<^verbatim>\<open>MAX_QUEUE_SIZE = 1000\<close> entries (or more);
  otherwise, whether or not \<^verbatim>\<open>Shutdown\<close> was called, it appends the submission at the
  back and returns true; and after any sequence of submits, shutdowns and worker pops
  from the initial state the queue holds at most 1000 entries.
\<close>

theorem SubmitNonce_backpressure:
  "(length (m_submission_queue s) \<ge> 1000 \<longrightarrow>
      SubmitNonce s acc sd n q c h gs = (False, s)) \<and>
   (length (m_submission_queue s) < 1000 \<longrightarrow>
      SubmitNonce s acc sd n q c h gs =
        (True, s\<lparr>m_submission_queue := m_submission_queue s @
           [\<lparr>sub_account_id = acc, sub_seed = sd, sub_nonce = n, sub_quality = q, sub_compression = c,
             sub_expected_height = h, sub_generation_signature = gs\<rparr>]\<rparr>)) \<and>
   length (m_submission_queue (queue_run ops)) \<le> 1000"
  using queue_run_bounded [of ops]
  by (simp add: SubmitNonce_def Let_def MAX_QUEUE_SIZE_def)

theorem SubmitNonce_backpressure_witness:
  "SubmitNonce scheduler_init ''acc'' ''seed'' 1 2 1 5 0 =
     (True, scheduler_init\<lparr>m_submission_queue :=
        [\<lparr>sub_account_id = ''acc'', sub_seed = ''seed'', sub_nonce = 1, sub_quality = 2,
          sub_compression = 1, sub_expected_height = 5, sub_generation_signature = 0\<rparr>]\<rparr>) \<and>
   SubmitNonce full_queue ''acc'' ''seed'' 1 2 1 5 0 = (False, full_queue)"
proof -
  have full: "length (m_submission_queue full_queue) = 1000"
    unfolding full_queue_def MAX_QUEUE_SIZE_def by simp
  have empty: "length (m_submission_queue scheduler_init) = 0"
    by (simp add: scheduler_init_def)
  show ?thesis
    using SubmitNonce_backpressure [of scheduler_init "''acc''" "''seed''" 1 2 1 5 0 "[]"]
          SubmitNonce_backpressure [of full_queue "''acc''" "''seed''" 1 2 1 5 0 "[]"]
    unfolding full empty
    by (simp add: scheduler_init_def)
qed

section \<open>Properties of the effective signer\<close>

lemma GetStateAtHeight_not_UNASSIGNED: "GetStateAtHeight a h \<noteq> UNASSIGNED"
  by (simp add: GetStateAtHeight_def)

text \<open>
  C6: the effective signer is the assignment's forging address exactly when the view
  holds a record for the plot whose derived state at \<open>h\<close> is ASSIGNING, ASSIGNED or
  REVOKING; with no record, or in state UNASSIGNED or REVOKED, it is the plot address.
\<close>

theorem GetEffectiveSigner_policy:
  "GetEffectiveSigner plot h view =
     (case view plot h of
        None \<Rightarrow> plot
      | Some a \<Rightarrow>
          if GetAssignmentState plot h view \<in> {ASSIGNING, ASSIGNED, REVOKING}
          then forgingAddress a else plot) \<and>
   (GetAssignmentState plot h view \<in> {UNASSIGNED, REVOKED} \<longrightarrow>
      GetEffectiveSigner plot h view = plot) \<and>
   (view plot h = None \<longleftrightarrow> GetAssignmentState plot h view = UNASSIGNED)"
  by (cases "view plot h")
     (auto simp: GetEffectiveSigner_def GetAssignmentState_def IsActiveAtHeight_def
                 GetStateAtHeight_def Let_def)

theorem GetEffectiveSigner_policy_witness:
  "GetEffectiveSigner [1] 5 (\<lambda>p h. None) = [1] \<and>
   GetEffectiveSigner [1] 5
     (\<lambda>p h. Some \<lparr>plotAddress = [1], forgingAddress = [2], assignment_txid = 0,
                    assignment_height = 3, assignment_effective_height = 10,
                    revoked = False, revocation_txid = 0, revocation_height = 0,
                    revocation_effective_height = 0\<rparr>) = [2] \<and>
   GetEffectiveSigner [1] 50
     (\<lambda>p h. Some \<lparr>plotAddress = [1], forgingAddress = [2], assignment_txid = 0,
                    assignment_height = 3, assignment_effective_height = 10,
                    revoked = True, revocation_txid = 0, revocation_height = 20,
                    revocation_effective_height = 30\<rparr>) = [1]"
  using GetEffectiveSigner_policy [of "[1]" 5 "\<lambda>p h. None"]
        GetEffectiveSigner_policy [of "[1]" 5
          "\<lambda>p h. Some \<lparr>plotAddress = [1], forgingAddress = [2], assignment_txid = 0,
                    assignment_height = 3, assignment_effective_height = 10,
                    revoked = False, revocation_txid = 0, revocation_height = 0,
                    revocation_effective_height = 0\<rparr>"]
        GetEffectiveSigner_policy [of "[1]" 50
          "\<lambda>p h. Some \<lparr>plotAddress = [1], forgingAddress = [2], assignment_txid = 0,
                    assignment_height = 3, assignment_effective_height = 10,
                    revoked = True, revocation_txid = 0, revocation_height = 20,
                    revocation_effective_height = 30\<rparr>"]
  by (simp add: GetAssignmentState_def GetStateAtHeight_def)

section \<open>Properties of the OP\_RETURN payloads\<close>

lemma GetOp_assignment:
  assumes "length p = 20" "length f = 20"
  shows "GetOp (CreateAssignmentOpReturn p f) 1 =
           (True, 46, 44, ASSIGNMENT_MARKER @ p @ f)"
  using assms
  by (simp add: GetOp_def CreateAssignmentOpReturn_def script_push_op_def
        script_push_data_def read_push_def ASSIGNMENT_MARKER_def OP_PUSHDATA1_def
        OP_PUSHDATA4_def OP_RETURN_def Let_def)

lemma GetOp_revocation:
  assumes "length p = 20"
  shows "GetOp (CreateRevocationOpReturn p) 1 = (True, 26, 24, REVOCATION_MARKER @ p)"
  using assms
  by (simp add: GetOp_def CreateRevocationOpReturn_def script_push_op_def
        script_push_data_def read_push_def REVOCATION_MARKER_def OP_PUSHDATA1_def
        OP_PUSHDATA4_def OP_RETURN_def Let_def)

lemma CreateAssignmentOpReturn_shape:
  "length p = 20 \<Longrightarrow> length f = 20 \<Longrightarrow>
   CreateAssignmentOpReturn p f = OP_RETURN # 44 # ASSIGNMENT_MARKER @ p @ f"
  by (simp add: CreateAssignmentOpReturn_def script_push_op_def script_push_data_def
        ASSIGNMENT_MARKER_def OP_PUSHDATA1_def Let_def)

lemma CreateRevocationOpReturn_shape:
  "length p = 20 \<Longrightarrow> CreateRevocationOpReturn p = OP_RETURN # 24 # REVOCATION_MARKER @ p"
  by (simp add: CreateRevocationOpReturn_def script_push_op_def script_push_data_def
        REVOCATION_MARKER_def OP_PUSHDATA1_def Let_def)

lemma IsAssignmentOpReturn_Create:
  assumes "length p = 20" "length f = 20"
  shows "IsAssignmentOpReturn (CreateAssignmentOpReturn p f)"
proof -
  have shape: "CreateAssignmentOpReturn p f = OP_RETURN # 44 # ASSIGNMENT_MARKER @ p @ f"
    using assms by (rule CreateAssignmentOpReturn_shape)
  have len: "length (CreateAssignmentOpReturn p f) = 46"
    using assms by (simp add: shape ASSIGNMENT_MARKER_def)
  show ?thesis
    unfolding IsAssignmentOpReturn_def GetOp_assignment [OF assms] len
    using assms by (simp add: shape ASSIGNMENT_MARKER_def)
qed

lemma IsRevocationOpReturn_Create:
  assumes "length p = 20"
  shows "IsRevocationOpReturn (CreateRevocationOpReturn p)"
proof -
  have shape: "CreateRevocationOpReturn p = OP_RETURN # 24 # REVOCATION_MARKER @ p"
    using assms by (rule CreateRevocationOpReturn_shape)
  have len: "length (CreateRevocationOpReturn p) = 26"
    using assms by (simp add: shape REVOCATION_MARKER_def)
  show ?thesis
    unfolding IsRevocationOpReturn_def GetOp_revocation [OF assms] len
    using assms by (simp add: shape REVOCATION_MARKER_def)
qed

text \<open>
  C7: for all 20-byte \<open>p\<close> and \<open>f\<close>, parsing the script made by the assignment
  creator gives back \<open>(p, f)\<close>, and parsing the script made by the revocation creator
  gives back \<open>p\<close>.
\<close>

theorem Parse_Create_roundtrip:
  assumes "length p = 20" and "length f = 20"
  shows "ParseAssignmentOpReturn (CreateAssignmentOpReturn p f) = Some (p, f) \<and>
         ParseRevocationOpReturn (CreateRevocationOpReturn p) = Some p"
proof
  show "ParseAssignmentOpReturn (CreateAssignmentOpReturn p f) = Some (p, f)"
    unfolding ParseAssignmentOpReturn_def GetOp_assignment [OF assms]
    using assms IsAssignmentOpReturn_Create [OF assms]
    by (simp add: ASSIGNMENT_MARKER_def)
  show "ParseRevocationOpReturn (CreateRevocationOpReturn p) = Some p"
    unfolding ParseRevocationOpReturn_def GetOp_revocation [OF assms(1)]
    using assms IsRevocationOpReturn_Create [OF assms(1)]
    by (simp add: REVOCATION_MARKER_def)
qed

theorem Parse_Create_roundtrip_witness:
  "ParseAssignmentOpReturn (CreateAssignmentOpReturn (replicate 20 0x11) (replicate 20 0x22)) =
     Some (replicate 20 0x11, replicate 20 0x22) \<and>
   ParseRevocationOpReturn (CreateRevocationOpReturn (replicate 20 0x11)) =
     Some (replicate 20 0x11)"
  using Parse_Create_roundtrip [of "replicate 20 0x11" "replicate 20 0x22"] by simp

section \<open>Evaluating the hashes\<close>

text \<open>
  Concrete hashes are computed by rewriting, values first: the weak congruence rules
  keep the simplifier out of the body of a \<open>let\<close> or a \<open>case\<close> until its argument is
  a value.
\<close>

lemma upt_eval:
  "[0..<16] = [0, 1, 2, 3, 4, 5, 6, 7, 8, 9, 10, 11, 12, 13, 14, 15]"
  "[0..<8] = [0, 1, 2, 3, 4, 5, 6, 7]"
  "[16..<24] = [16, 17, 18, 19, 20, 21, 22, 23]"
  "[0..<1] = [0]"
  "[0..<0] = []"
  by (simp_all add: upt_rec)


lemma incr_w_first: "incr_w (Suc 0, 0) = (2, 0)"
  by (simp add: incr_w_def add32_def Let_def take_bit_eq_mod)

lemmas u32_ops = add32_def sub32_def mul32_def shl32_def shr32_def not32_def

lemmas shabal_eval = u32_ops perm_elt_def perm_elt_lite_def Let_def perm_def apply_p_def
   perm_table_def lite_table_1_def lite_table_2_def feedback_table_def idx16_def idx8_def
   A_INIT_def B_INIT_def C_INIT_def A_INIT_LITE_def B_INIT_LITE_def C_INIT_LITE_def
   add_at_def sub_at_def rotl17_at_def rotl17_all_def swap_at_def swap_bc_def incr_w_first xor_w_def
   input_block_add_def input_block_sub_def lite_add_at_def lite_sub_at_def lite_pass_def
   lite_closing_def upt_eval load_words_def load_u32_def load_block_def data_blocks_def
   shabal_block_def shabal_term_def shabal_final_round_def shabal_init_def shabal_digest_def
   Shabal256_def store_words_def store_u32_def u32_le_at_def BytesToU32LE_def height_byte_def
   scoop_message_def scoop_of_hash_def

lemma scoop_message_words:
  "BytesToU32LE (scoop_message 0 test_gensig) 64 =
     [3015582104, 999968179, 92017200, 15323640, 4110584431, 559391589, 3192591173,
      1987760948, 0, 0, 128, 0, 0, 0, 0, 0]"
  by (simp add: shabal_eval test_gensig_def)

lemma CalculateScoop_test_vector: "CalculateScoop 0 test_gensig = 667"
  unfolding CalculateScoop_def Let_def scoop_message_words
  by (simp add: shabal_eval cong: let_weak_cong prod.case_cong_weak)

lemma scoop_with_separate_terminator:
  "scoop_of_hash (Shabal256 (scoop_message 0 test_gensig) None term_0x80) = 2281"
  by (simp add: shabal_eval test_gensig_def term_0x80_def cong: let_weak_cong prod.case_cong_weak)

lemma Shabal256Lite_zero_vector:
  "Shabal256Lite (replicate 64 0) (replicate 32 0) = 0x9824D76D62CD4F2F"
  by (simp add: Shabal256Lite_def shabal_eval cong: let_weak_cong prod.case_cong_weak)

section \<open>Properties of the scoop selection\<close>

lemma or_nat_bound: "(a::nat) < 2 ^ n \<Longrightarrow> b < 2 ^ n \<Longrightarrow> a OR b < 2 ^ n"
proof -
  assume "a < 2 ^ n" "b < 2 ^ n"
  then have "take_bit n a = a" "take_bit n b = b"
    by (simp_all add: take_bit_nat_eq_self_iff)
  then have "take_bit n (a OR b) = a OR b"
    by (simp add: take_bit_or)
  then show ?thesis
    by (simp only: take_bit_nat_eq_self_iff)
qed

lemma low_nibble_bound: "unat ((x :: 8 word) AND 0x0F) < 16"
proof -
  have "unat (x AND 15) \<le> unat (15 :: u8)"
    by (rule word_and_le1 [THEN word_le_nat_alt [THEN iffD1]])
  then show ?thesis by simp
qed

lemma scoop_of_hash_range: "scoop_of_hash hash < 4096"
proof -
  have "push_bit 8 (unat (hash ! 30 AND 0x0F)) < 2 ^ 12"
    using low_nibble_bound [of "hash ! 30"] by (simp add: push_bit_eq_mult)
  moreover have "unat (hash ! 31) < 2 ^ 12"
    using unsigned_less [of "hash ! 31", where ?'a = nat] by simp
  ultimately have "push_bit 8 (unat (hash ! 30 AND 0x0F)) OR unat (hash ! 31) < 2 ^ 12"
    by (rule or_nat_bound)
  then show ?thesis by (simp add: scoop_of_hash_def)
qed

text \<open>
  C4, as stated, fails: hashing the 64-byte message as data with the separate
  terminator \<^verbatim>\<open>{0x80, 0, ..., 0}\<close> gives scoop 2281 on the test vector, where
  \<^verbatim>\<open>CalculateScoop\<close> returns 667.
\<close>

theorem CalculateScoop_not_message_then_terminator:
  "CalculateScoop 0 test_gensig \<noteq>
     scoop_of_hash (Shabal256 (scoop_message 0 test_gensig) None term_0x80)"
  unfolding CalculateScoop_test_vector scoop_with_separate_terminator by simp

text \<open>
  C4 (amended): for every height and 32-byte generation signature, \<^verbatim>\<open>CalculateScoop\<close>
  gives Shabal-256 no data and no pre-terminator; the terminator block is the 64-byte
  message gensig, the height in eight big-endian bytes, \<open>0x80\<close> and 23 zero bytes,
  read as 16 little-endian words. It returns \<open>((h[30] & 0x0F) << 8) | h[31]\<close> of the
  digest \<open>h\<close>, a value below \<open>NUM_SCOOPS = 4096\<close>, and 667 for height 0 and the
  signature of the test.
\<close>

theorem CalculateScoop_message_is_terminator:
  assumes "length gensig = 32"
  shows "CalculateScoop height gensig =
           (let message = gensig @ map (height_byte height) [7, 6, 5, 4, 3, 2, 1, 0] @
                          [0x80] @ replicate 23 0;
                h = Shabal256 [] None (BytesToU32LE message 64)
            in push_bit 8 (unat (h ! 30 AND 0x0F)) OR unat (h ! 31)) \<and>
         CalculateScoop height gensig < NUM_SCOOPS \<and> NUM_SCOOPS = 4096 \<and>
         CalculateScoop 0 test_gensig = 667"
proof (intro conjI)
  show "CalculateScoop height gensig =
          (let message = gensig @ map (height_byte height) [7, 6, 5, 4, 3, 2, 1, 0] @
                         [0x80] @ replicate 23 0;
               h = Shabal256 [] None (BytesToU32LE message 64)
           in push_bit 8 (unat (h ! 30 AND 0x0F)) OR unat (h ! 31))"
    using assms by (simp add: CalculateScoop_def Let_def scoop_message_def scoop_of_hash_def)
  show "CalculateScoop height gensig < NUM_SCOOPS"
    unfolding CalculateScoop_def Let_def NUM_SCOOPS_def by (rule scoop_of_hash_range)
  show "NUM_SCOOPS = 4096"
    by (simp add: NUM_SCOOPS_def)
  show "CalculateScoop 0 test_gensig = 667"
    by (rule CalculateScoop_test_vector)
qed

theorem CalculateScoop_message_is_terminator_witness:
  "length test_gensig = 32 \<and> CalculateScoop 0 test_gensig < 4096"
  using CalculateScoop_message_is_terminator [of test_gensig 0]
  by (simp add: test_gensig_def)

section \<open>Properties of Shabal-256 lite\<close>

lemma perm_elt_lite_eq: "perm_elt_lite = perm_elt"
  by (intro ext) (simp add: perm_elt_lite_def perm_elt_def)

lemma lite_call_agrees:
  "row_agrees m M r r' \<Longrightarrow> lite_call m c ab r = perm_call c M ab r'"
  by (induction m M r r' rule: row_agrees.induct) (simp add: perm_elt_lite_eq)

lemma foldl_lite_call:
  "list_all2 (row_agrees m M) tbl tbl' \<Longrightarrow>
   foldl (lite_call m c) ab tbl = foldl (perm_call c M) ab tbl'"
proof (induction tbl tbl' arbitrary: ab rule: list_all2_induct)
  case Nil
  then show ?case by simp
next
  case (Cons r tbl r' tbl')
  then show ?case by (simp add: lite_call_agrees)
qed

lemma table_1_agrees:
  "list_all2 (row_agrees ([g0, g1, g2, g3, g4, g5, g6, g7], d, t)
       ([g0, g1, g2, g3, g4, g5, g6, g7] @ take 8 [d0, d1, d2, d3, d4, d5, d6, d7, d8, d9, d10, d11, d12, d13, d14, d15]))
     lite_table_1 perm_table"
  if "d = [d0, d1, d2, d3, d4, d5, d6, d7, d8, d9, d10, d11, d12, d13, d14, d15]"
  unfolding that by (simp add: lite_table_1_def perm_table_def)

lemma table_2_agrees:
  "list_all2 (row_agrees (g, [d0, d1, d2, d3, d4, d5, d6, d7, d8, d9, d10, d11, d12, d13, d14, d15],
                          [t0, t1, t2, t3, t4, t5, t6, t7])
       (drop 8 [d0, d1, d2, d3, d4, d5, d6, d7, d8, d9, d10, d11, d12, d13, d14, d15] @
        [t0, t1, t2, t3, t4, t5, t6, t7]))
     lite_table_2 perm_table"
  by (simp add: lite_table_2_def perm_table_def)

lemma lite_pass_apply_p:
  assumes "list_all2 (row_agrees m M) tbl perm_table"
  shows "lite_pass m tbl w c ab = apply_p (xor_w (fst ab) (fst w) (snd w), snd ab) c M"
  by (simp add: lite_pass_def apply_p_def perm_def xor_w_def rotl17_all_def Let_def
        foldl_lite_call [OF assms])


lemma lite_add_block_1:
  "foldl (lite_add_at [g0, g1, g2, g3, g4, g5, g6, g7] 0 [d0, d1, d2, d3, d4, d5, d6, d7, d8, d9, d10, d11, d12, d13, d14, d15]) B_INIT_LITE idx8 =
   input_block_add B_INIT ([g0, g1, g2, g3, g4, g5, g6, g7] @ take 8 [d0, d1, d2, d3, d4, d5, d6, d7, d8, d9, d10, d11, d12, d13, d14, d15])"
  by (simp add: B_INIT_LITE_def B_INIT_def idx8_def idx16_def lite_add_at_def add_at_def
        input_block_add_def Let_def)

lemma lite_sub_block_1:
  "foldl (lite_sub_at [g0, g1, g2, g3, g4, g5, g6, g7] [d0, d1, d2, d3, d4, d5, d6, d7, d8, d9, d10, d11, d12, d13, d14, d15]) C_INIT_LITE idx8 =
   input_block_sub C_INIT ([g0, g1, g2, g3, g4, g5, g6, g7] @ take 8 [d0, d1, d2, d3, d4, d5, d6, d7, d8, d9, d10, d11, d12, d13, d14, d15])"
  by (simp add: C_INIT_LITE_def C_INIT_def idx8_def idx16_def lite_sub_at_def sub_at_def
        input_block_sub_def Let_def)

lemma lite_add_block_2_explicit:
  "foldl (lite_add_at [d0, d1, d2, d3, d4, d5, d6, d7, d8, d9, d10, d11, d12, d13, d14, d15] 8 [t0, t1, t2, t3, t4, t5, t6, t7]) [b0, b1, b2, b3, b4, b5, b6, b7, b8, b9, b10, b11, b12, b13, b14, b15] idx8 =
   input_block_add [b0, b1, b2, b3, b4, b5, b6, b7, b8, b9, b10, b11, b12, b13, b14, b15] (drop 8 [d0, d1, d2, d3, d4, d5, d6, d7, d8, d9, d10, d11, d12, d13, d14, d15] @ [t0, t1, t2, t3, t4, t5, t6, t7])"
  by (simp add: idx8_def idx16_def lite_add_at_def add_at_def input_block_add_def Let_def)

lemma list16_explicit:
  "length xs = 16 \<Longrightarrow>
   \<exists>b0 b1 b2 b3 b4 b5 b6 b7 b8 b9 b10 b11 b12 b13 b14 b15. xs = [b0, b1, b2, b3, b4, b5, b6, b7, b8, b9, b10, b11, b12, b13, b14, b15]"
  by (auto simp: numeral_eq_Suc length_Suc_conv)

lemma lite_add_block_2:
  assumes "length b = 16"
  shows "foldl (lite_add_at [d0, d1, d2, d3, d4, d5, d6, d7, d8, d9, d10, d11, d12, d13, d14, d15] 8 [t0, t1, t2, t3, t4, t5, t6, t7]) b idx8 =
         input_block_add b (drop 8 [d0, d1, d2, d3, d4, d5, d6, d7, d8, d9, d10, d11, d12, d13, d14, d15] @ [t0, t1, t2, t3, t4, t5, t6, t7])"
proof -
  from list16_explicit [OF assms] obtain b0 b1 b2 b3 b4 b5 b6 b7 b8 b9 b10 b11 b12 b13 b14 b15
    where "b = [b0, b1, b2, b3, b4, b5, b6, b7, b8, b9, b10, b11, b12, b13, b14, b15]" by blast
  then show ?thesis by (simp only: lite_add_block_2_explicit)
qed

lemma length_foldl_add_at: "length (foldl (add_at m) b is) = length b"
  by (induction "is" arbitrary: b) (simp_all add: add_at_def)

lemma length_foldl_sub_at: "length (foldl (sub_at m) b is) = length b"
  by (induction "is" arbitrary: b) (simp_all add: sub_at_def)

lemma length_foldl_rotl17_at: "length (foldl rotl17_at b is) = length b"
  by (induction "is" arbitrary: b) (simp_all add: rotl17_at_def)

lemma length_foldl_swap_at:
  "length (fst (foldl swap_at bc is)) = length (fst bc) \<and>
   length (snd (foldl swap_at bc is)) = length (snd bc)"
  by (induction "is" arbitrary: bc) (simp_all add: swap_at_def)

lemma length_perm_call:
  "length (fst (perm_call c m ab r)) = length (fst ab) \<and>
   length (snd (perm_call c m ab r)) = length (snd ab)"
  by (induction c m ab r rule: perm_call.induct) (simp add: perm_elt_def Let_def)

lemma length_foldl_perm_call:
  "length (fst (foldl (perm_call c m) ab tbl)) = length (fst ab) \<and>
   length (snd (foldl (perm_call c m) ab tbl)) = length (snd ab)"
  by (induction tbl arbitrary: ab) (simp_all add: length_perm_call)

lemma length_foldl_feedback_add: "length (foldl (feedback_add c) a tbl) = length a"
proof (induction tbl arbitrary: a)
  case Nil
  then show ?case by simp
next
  case (Cons r tbl)
  obtain i x y z where "r = (i, x, y, z)" by (cases r) auto
  with Cons show ?case by simp
qed

lemma length_apply_p:
  "length (fst (apply_p ab c m)) = length (fst ab) \<and>
   length (snd (apply_p ab c m)) = length (snd ab)"
  by (simp add: apply_p_def Let_def perm_def rotl17_all_def length_foldl_perm_call
        length_foldl_feedback_add length_foldl_rotl17_at)

lemma length_B_INIT: "length B_INIT = 16"
  by (simp add: B_INIT_def)

lemma length_C_INIT: "length C_INIT = 16"
  by (simp add: C_INIT_def)

lemma INIT_LITE_eq: "A_INIT_LITE = A_INIT" "B_INIT_LITE = B_INIT" "C_INIT_LITE = C_INIT"
  by (simp_all add: A_INIT_LITE_def A_INIT_def B_INIT_LITE_def B_INIT_def C_INIT_LITE_def C_INIT_def)

lemma load_words_append:
  assumes "length gensig = 32"
  shows "load_words (gensig @ data) 0 16 = load_words gensig 0 8 @ take 8 (load_words data 0 16)"
    and "load_words (gensig @ data) 16 8 = drop 8 (load_words data 0 16)"
  using assms by (simp_all add: load_words_def upt_eval load_u32_def nth_append numeral_2_eq_2 numeral_3_eq_3)

lemma lite_closing_final_round:
  assumes "list_all2 (row_agrees m M) lite_table_2 perm_table"
  shows "lite_closing m w (reg_a st, reg_b st, reg_c st) k =
           (let st' = shabal_final_round M (st\<lparr>reg_w := w\<rparr>)
            in (reg_a st', reg_b st', reg_c st'))"
  by (simp add: lite_closing_def shabal_final_round_def Let_def swap_bc_def
        lite_pass_apply_p [OF assms])

lemma Shabal256Lite_refines:
  assumes "length gensig = 32"
  shows "Shabal256Lite data gensig =
     (let msg = gensig @ data;
          M1 = load_words msg 0 16;
          M2 = load_words msg 16 8 @ [0x80, 0, 0, 0, 0, 0, 0, 0];
          st = shabal_term (shabal_block shabal_init M1) M2;
          st = shabal_final_round M2 (shabal_final_round M2 (shabal_final_round M2 st))
      in reg_b st ! 8 + push_bit 32 (reg_b st ! 9))"
proof -
  define g where "g = load_words gensig 0 8"
  define d where "d = load_words data 0 16"
  define t :: "uint32 list" where "t = [0x80, 0, 0, 0, 0, 0, 0, 0]"
  define M1 where "M1 = g @ take 8 d"
  define M2 where "M2 = drop 8 d @ t"
  define w0 where "w0 = (1 :: uint32, 0 :: uint32)"
  define w1 where "w1 = incr_w w0"
  obtain g0 g1 g2 g3 g4 g5 g6 g7 where g: "g = [g0, g1, g2, g3, g4, g5, g6, g7]"
    by (simp add: g_def load_words_def upt_eval)
  obtain d0 d1 d2 d3 d4 d5 d6 d7 d8 d9 d10 d11 d12 d13 d14 d15 where d: "d = [d0, d1, d2, d3, d4, d5, d6, d7, d8, d9, d10, d11, d12, d13, d14, d15]"
    by (simp add: d_def load_words_def upt_eval)
  have agree1: "list_all2 (row_agrees (g, d, t) M1) lite_table_1 perm_table"
    unfolding M1_def g d by (rule table_1_agrees) (rule refl)
  have agree2: "list_all2 (row_agrees (g, d, t) M2) lite_table_2 perm_table"
    unfolding M2_def d t_def by (rule table_2_agrees)
  text \<open>The values of the lite function, in the order of its statements.\<close>
  define lb1 where "lb1 = foldl (lite_add_at g 0 d) B_INIT_LITE idx8"
  define lab1 where "lab1 = lite_pass (g, d, t) lite_table_1 w0 C_INIT_LITE (A_INIT_LITE, lb1)"
  define lc1 where "lc1 = foldl (lite_sub_at g d) C_INIT_LITE idx8"
  define lbc1 where "lbc1 = foldl swap_at (snd lab1, lc1) idx16"
  define lb2 where "lb2 = foldl (lite_add_at d 8 t) (fst lbc1) idx8"
  define lab2 where "lab2 = lite_pass (g, d, t) lite_table_2 w1 (snd lbc1) (fst lab1, lb2)"
  define labc where "labc = foldl (lite_closing (g, d, t) w1) (fst lab2, snd lab2, snd lbc1) [0, 1, 2]"
  have lite: "Shabal256Lite data gensig = fst (snd labc) ! 8 + push_bit 32 (fst (snd labc) ! 9)"
    unfolding Shabal256Lite_def Let_def labc_def lab2_def lb2_def lbc1_def lc1_def lab1_def
      lb1_def g_def d_def t_def w1_def w0_def
    by (rule refl)
  text \<open>The states of the three-step hash.\<close>
  define st1 where "st1 = shabal_block shabal_init M1"
  define st2 where "st2 = shabal_term st1 M2"
  have b1: "lb1 = input_block_add B_INIT M1"
    unfolding lb1_def M1_def g d by (rule lite_add_block_1)
  have c1: "lc1 = input_block_sub C_INIT M1"
    unfolding lc1_def M1_def g d by (rule lite_sub_block_1)
  have ab1: "lab1 = apply_p (xor_w A_INIT 1 0, input_block_add B_INIT M1) C_INIT M1"
    unfolding lab1_def lite_pass_apply_p [OF agree1] b1 INIT_LITE_eq w0_def by simp
  have bc1: "lbc1 = swap_bc (snd lab1, input_block_sub C_INIT M1)"
    unfolding lbc1_def c1 swap_bc_def by (rule refl)
  have st1: "st1 = \<lparr>reg_a = fst lab1, reg_b = fst lbc1, reg_c = snd lbc1, reg_w = w1\<rparr>"
    unfolding st1_def shabal_block_def shabal_init_def Let_def bc1 ab1 w1_def w0_def by simp
  have len_b: "length (fst lbc1) = 16"
    unfolding bc1 ab1
    by (simp add: swap_bc_def length_foldl_swap_at length_apply_p input_block_add_def
          length_foldl_add_at length_B_INIT)
  have b2: "lb2 = input_block_add (fst lbc1) M2"
    unfolding lb2_def M2_def d t_def by (rule lite_add_block_2 [OF len_b])
  have ab2: "lab2 = apply_p (xor_w (fst lab1) (fst w1) (snd w1), input_block_add (fst lbc1) M2)
                      (snd lbc1) M2"
    unfolding lab2_def lite_pass_apply_p [OF agree2] b2 by simp
  have st2: "st2 = \<lparr>reg_a = fst lab2, reg_b = snd lab2, reg_c = snd lbc1, reg_w = w1\<rparr>"
    unfolding st2_def st1 shabal_term_def Let_def ab2 by simp
  have step: "lite_closing (g, d, t) w1 (reg_a s, reg_b s, reg_c s) k =
      (reg_a (shabal_final_round M2 s), reg_b (shabal_final_round M2 s),
       reg_c (shabal_final_round M2 s))" if "reg_w s = w1" for s k
  proof -
    have "s\<lparr>reg_w := w1\<rparr> = s" using that by simp
    then show ?thesis
      using lite_closing_final_round [OF agree2, of w1 s k] by (simp add: Let_def)
  qed
  have w_keep: "reg_w (shabal_final_round M s) = reg_w s" for M s
    by (simp add: shabal_final_round_def Let_def)
  define s3 where "s3 = shabal_final_round M2 st2"
  define s4 where "s4 = shabal_final_round M2 s3"
  define s5 where "s5 = shabal_final_round M2 s4"
  have w3: "reg_w st2 = w1" "reg_w s3 = w1" "reg_w s4 = w1"
    by (simp_all add: st2 s3_def s4_def w_keep)
  have "labc = foldl (lite_closing (g, d, t) w1) (reg_a st2, reg_b st2, reg_c st2) [0, 1, 2]"
    unfolding labc_def st2 by simp
  also have "\<dots> = lite_closing (g, d, t) w1 (lite_closing (g, d, t) w1
                     (lite_closing (g, d, t) w1 (reg_a st2, reg_b st2, reg_c st2) 0) 1) 2"
    by simp
  also have "\<dots> = (reg_a s5, reg_b s5, reg_c s5)"
    unfolding step [OF w3(1)] s3_def [symmetric] step [OF w3(2)] s4_def [symmetric]
      step [OF w3(3)] s5_def [symmetric] by (rule refl)
  finally have rounds: "labc = (reg_a s5, reg_b s5, reg_c s5)" .
  have msg: "load_words (gensig @ data) 0 16 = M1" "load_words (gensig @ data) 16 8 = drop 8 d"
    using load_words_append [OF assms, of data] by (simp_all add: M1_def g_def d_def)
  show ?thesis
    unfolding lite rounds Let_def msg
    by (simp add: s5_def s4_def s3_def st2_def st1_def M2_def t_def)
qed


text \<open>
  C5: \<^verbatim>\<open>Shabal256Lite\<close> runs two compressions of the full hash, the data-block step on
  the first sixteen words of gensig followed by data and the terminator step on the
  remaining eight words padded with \<open>0x80, 0, ..., 0\<close>, then the three closing
  swap/xor rounds, and returns \<open>b[8]\<close> and \<open>b[9]\<close> as one little-endian 64-bit value;
  on all-zero data and gensig it returns \<open>0x9824D76D62CD4F2F\<close>.
\<close>

theorem Shabal256Lite_two_compressions:
  assumes "length gensig = 32"
  shows "Shabal256Lite data gensig =
           (let msg = gensig @ data;
                M1 = load_words msg 0 16;
                M2 = load_words msg 16 8 @ [0x80, 0, 0, 0, 0, 0, 0, 0];
                st = shabal_term (shabal_block shabal_init M1) M2;
                st = shabal_final_round M2 (shabal_final_round M2 (shabal_final_round M2 st))
            in reg_b st ! 8 + push_bit 32 (reg_b st ! 9)) \<and>
         Shabal256Lite (replicate 64 0) (replicate 32 0) = 0x9824D76D62CD4F2F"
  using Shabal256Lite_refines [OF assms, of data] Shabal256Lite_zero_vector by simp

theorem Shabal256Lite_two_compressions_witness:
  "length (replicate 32 (0 :: u8)) = 32 \<and>
   Shabal256Lite (replicate 64 0) (replicate 32 0) = 0x9824D76D62CD4F2F"
  using Shabal256Lite_two_compressions [of "replicate 32 0" "replicate 64 0"] by simp

end
